theory Spec2Isabelle
  imports Complex_Main "HOL-Library.Word" "HOL-Library.Log_Nat" "HOL-Library.Monad_Syntax"
begin

section \<open>Double-precision arithmetic as used by \<^verbatim>\<open>device.c\<close>\<close>

text \<open>
  The profile code computes in C \<^verbatim>\<open>double\<close> and converts back to \<^verbatim>\<open>int\<close> with
  \<^verbatim>\<open>lrint\<close>. A finite double is a rational number, so the embedding works on
  \<^typ>\<open>rat\<close>: every arithmetic operation is the exact rational operation followed by
  \<open>dbl\<close>, the rounding of a rational to the nearest number with a 53-bit significand,
  ties to the even significand (IEEE-754 binary64 in the default rounding direction, each
  operation rounded once, no fused multiply-add). A conversion of an \<^verbatim>\<open>int\<close> to a double
  is exact. In the calls that \<^verbatim>\<open>fake_dc\<close> makes every value is zero or of a magnitude
  between \<open>2\<^sup>-\<^sup>6\<^sup>4\<close> and \<open>2\<^sup>6\<^sup>4\<close>, so the subnormal range and the overflow to infinity
  are left out of \<open>dbl\<close>.
\<close>

definition rne :: "rat \<Rightarrow> int" where
  \<comment> \<open>nearest integer, a tie goes to the even neighbour\<close>
  "rne x = (let f = \<lfloor>x\<rfloor>; r = x - of_int f in
     if r < 1 / 2 then f else if 1 / 2 < r then f + 1 else if even f then f else f + 1)"

definition pow2 :: "int \<Rightarrow> rat" where
  "pow2 k = (if 0 \<le> k then 2 ^ nat k else 1 / 2 ^ nat (- k))"

definition expo :: "rat \<Rightarrow> int" where
  \<comment> \<open>binary exponent of a positive rational: \<open>pow2 (expo q) \<le> q < pow2 (expo q + 1)\<close>\<close>
  "expo q = (if 1 \<le> q then bitlen \<lfloor>q\<rfloor> - 1 else - bitlen (\<lceil>1 / q\<rceil> - 1))"

definition dbl :: "rat \<Rightarrow> rat" where
  "dbl q = (if q = 0 then 0 else
     let s = pow2 (52 - expo \<bar>q\<bar>) in of_int (rne (q * s)) / s)"

definition dsub :: "rat \<Rightarrow> rat \<Rightarrow> rat" where "dsub x y = dbl (x - y)"
definition dmul :: "rat \<Rightarrow> rat \<Rightarrow> rat" where "dmul x y = dbl (x * y)"
definition ddiv :: "rat \<Rightarrow> rat \<Rightarrow> rat" where "ddiv x y = dbl (x / y)"

definition lrint :: "rat \<Rightarrow> int" where
  \<comment> \<open>\<^verbatim>\<open>lrint\<close> rounds in the current rounding direction; the program never changes
      the default, round to nearest with ties to even\<close>
  "lrint x = rne x"

definition MAX_dbl :: "rat \<Rightarrow> rat \<Rightarrow> rat" where
  \<comment> \<open>the macro \<^verbatim>\<open>MAX(a, b)\<close>, \<^verbatim>\<open>((a) > (b) ? (a) : (b))\<close>\<close>
  "MAX_dbl a b = (if a > b then a else b)"

section \<open>C integers\<close>

definition INT_MIN :: int where "INT_MIN = - 2147483648"
definition INT_MAX :: int where "INT_MAX = 2147483647"

definition to_int :: "int \<Rightarrow> int option" where
  \<comment> \<open>a value stored into an \<^verbatim>\<open>int\<close>: \<open>None\<close> where it does not fit (signed overflow,
      or an out-of-range conversion of a \<^verbatim>\<open>long\<close>)\<close>
  "to_int v = (if INT_MIN \<le> v \<and> v \<le> INT_MAX then Some v else None)"

definition cdiv :: "int \<Rightarrow> int \<Rightarrow> int" where
  \<comment> \<open>C integer division truncates towards zero\<close>
  "cdiv a b = sgn a * sgn b * (\<bar>a\<bar> div \<bar>b\<bar>)"

section \<open>Data model\<close>

record sample =
  time_seconds :: int
  depth_mm :: int
  bearing_degrees :: int
  ndl_seconds :: int

record divecomputer =
  duration_seconds :: int
  maxdepth_mm :: int
  meandepth_mm :: int
  last_manual_time :: int
  samples :: int
  sample :: "sample list"
  deviceid :: "32 word"
  model :: "string option"
  serial :: "string option"
  fw_version :: "string option"

definition zero_sample :: sample where
  "zero_sample = \<lparr>time_seconds = 0, depth_mm = 0, bearing_degrees = 0, ndl_seconds = 0\<rparr>"

definition alloc_samples :: "divecomputer \<Rightarrow> nat \<Rightarrow> divecomputer" where
  \<comment> \<open>Modelled from the spec: \<^verbatim>\<open>alloc_samples\<close> is declared in \<^verbatim>\<open>dive.h\<close> and not part
      of the sources. The spec has it provide exactly \<open>num\<close> sample slots that replace the
      record's sequence; \<^verbatim>\<open>fake_dc\<close> overwrites all of them before reading any.\<close>
  "alloc_samples dc num = dc\<lparr>sample := replicate num zero_sample\<rparr>"

definition memset_zero :: "sample list \<Rightarrow> nat \<Rightarrow> sample list" where
  \<comment> \<open>\<^verbatim>\<open>memset(fake, 0, n * sizeof(struct sample))\<close>\<close>
  "memset_zero fake n = replicate n zero_sample @ drop n fake"

definition set_time :: "sample list \<Rightarrow> nat \<Rightarrow> int \<Rightarrow> sample list" where
  \<comment> \<open>\<^verbatim>\<open>s[i].time.seconds = t\<close>\<close>
  "set_time s i t = s[i := (s ! i)\<lparr>time_seconds := t\<rparr>]"

definition set_depth :: "sample list \<Rightarrow> nat \<Rightarrow> int \<Rightarrow> sample list" where
  \<comment> \<open>\<^verbatim>\<open>s[i].depth.mm = d\<close>\<close>
  "set_depth s i d = s[i := (s ! i)\<lparr>depth_mm := d\<rparr>]"

section \<open>The profile synthesizer\<close>

text \<open>
  \<^verbatim>\<open>fill_samples\<close> (lines 65 to 86). The result is \<open>None\<close> where a value stored into an
  \<^verbatim>\<open>int\<close> does not fit; otherwise the returned flag (\<^verbatim>\<open>return 1\<close> is \<open>True\<close>) and the
  sample array after the call. The callers pass an array of six slots.
\<close>

definition fill_samples ::
  "sample list \<Rightarrow> int \<Rightarrow> int \<Rightarrow> int \<Rightarrow> rat \<Rightarrow> rat \<Rightarrow> (bool \<times> sample list) option" where
  "fill_samples s max_d avg_d max_t slope d_frac = do {
     let t_frac = dmul (of_int max_t) (dsub 1 (ddiv (of_int avg_d) (of_int max_d)));
     t1 \<leftarrow> to_int (lrint (ddiv (of_int max_d) slope));
     t4 \<leftarrow> to_int (lrint (dsub (of_int max_t) (dmul (of_int t1) d_frac)));
     t3 \<leftarrow> to_int (lrint (dsub (of_int t4) (ddiv (dsub t_frac (of_int t1)) (dsub 1 d_frac))));
     t2 \<leftarrow> to_int (lrint (dsub (of_int t3) (dmul (of_int t1) (dsub 1 d_frac))));
     if t1 < 0 \<or> t1 > t2 \<or> t2 > t3 \<or> t3 > t4 \<or> t4 > max_t then Some (False, s)
     else do {
       let s = set_time s 1 t1;
       let s = set_depth s 1 max_d;
       let s = set_time s 2 t2;
       let s = set_depth s 2 max_d;
       let s = set_time s 3 t3;
       d3 \<leftarrow> to_int (lrint (dmul (of_int max_d) d_frac));
       let s = set_depth s 3 d3;
       let s = set_time s 4 t4;
       d4 \<leftarrow> to_int (lrint (dmul (of_int max_d) d_frac));
       let s = set_depth s 4 d4;
       Some (True, s)
     }
   }"

text \<open>\<^verbatim>\<open>fill_samples_no_avg\<close> (lines 92 to 110).\<close>

definition fill_samples_no_avg ::
  "sample list \<Rightarrow> int \<Rightarrow> int \<Rightarrow> rat \<Rightarrow> sample list option" where
  "fill_samples_no_avg s max_d max_t slope =
     (if max_d < 10000 \<or> max_t < 600 then do {
        t1 \<leftarrow> to_int (lrint (ddiv (of_int max_d) slope));
        let s = set_time s 1 t1;
        let s = set_depth s 1 max_d;
        t2 \<leftarrow> to_int (max_t - lrint (ddiv (of_int max_d) slope));
        let s = set_time s 2 t2;
        let s = set_depth s 2 max_d;
        Some s
      } else do {
        t1 \<leftarrow> to_int (lrint (ddiv (of_int max_d) slope));
        let s = set_time s 1 t1;
        let s = set_depth s 1 max_d;
        t2 \<leftarrow> to_int (max_t - lrint (ddiv (of_int max_d) slope) - 180);
        let s = set_time s 2 t2;
        let s = set_depth s 2 max_d;
        t3 \<leftarrow> to_int (max_t - lrint (ddiv 5000 slope) - 180);
        let s = set_time s 3 t3;
        let s = set_depth s 3 5000;
        t4 \<leftarrow> to_int (max_t - lrint (ddiv 5000 slope));
        let s = set_time s 4 t4;
        let s = set_depth s 4 5000;
        Some s
      })"

text \<open>
  Lines 156 to 162 of \<^verbatim>\<open>fake_dc\<close>: the average depth the three attempts are run with.
  \<open>None\<close> is a signed overflow of \<^verbatim>\<open>max_d + 10000\<close> or \<^verbatim>\<open>max_d * 2\<close>.
\<close>

definition sanitize_avg_d :: "int \<Rightarrow> int \<Rightarrow> int option" where
  "sanitize_avg_d max_d avg_d0 = do {
     avg_d \<leftarrow>
       (if avg_d0 < cdiv max_d 10 \<or> avg_d0 \<ge> max_d then do {
          a \<leftarrow> to_int (max_d + 10000);
          let avg_d = cdiv a 3;
          if avg_d > max_d then do {
            m \<leftarrow> to_int (max_d * 2);
            Some (cdiv m 3)
          } else Some avg_d
        } else Some avg_d0);
     Some (if avg_d = 0 then 1 else avg_d)
   }"

text \<open>
  \<^verbatim>\<open>fake_dc\<close> (lines 112 to 188). \<^verbatim>\<open>fake\<close> aliases \<^verbatim>\<open>dc->sample\<close>; the model keeps it
  as a local array and stores it into the record where the function returns.
\<close>

definition fake_dc :: "divecomputer \<Rightarrow> divecomputer option" where
  "fake_dc dc0 =
    (let dc = alloc_samples dc0 6;
         fake = sample dc;
         dc = dc\<lparr>samples := 6\<rparr>;
         max_t = duration_seconds dc;
         max_d = maxdepth_mm dc;
         avg_d = meandepth_mm dc;
         fake = memset_zero fake 6;
         fake = set_time fake 5 max_t;
         fake = map (\<lambda>f. f\<lparr>bearing_degrees := - 1, ndl_seconds := - 1\<rparr>) fake
     in
     if max_t = 0 \<or> max_d = 0 then Some (dc\<lparr>samples := 0, sample := fake\<rparr>)
     else
       let dc = dc\<lparr>last_manual_time := duration_seconds dc\<rparr> in
       if avg_d = 0 then do {
         fake \<leftarrow> fill_samples_no_avg fake max_d max_t
                   (MAX_dbl (ddiv (dmul 2 (of_int max_d)) (of_int max_t)) (ddiv 5000 60));
         if time_seconds (fake ! 3) = 0
         then Some (dc\<lparr>samples := 4, sample := set_time fake 3 max_t\<rparr>)
         else Some (dc\<lparr>sample := fake\<rparr>)
       } else do {
         avg_d \<leftarrow> sanitize_avg_d max_d avg_d;
         r1 \<leftarrow> fill_samples fake max_d avg_d max_t (ddiv 5000 60) (dbl (33 / 100));
         if fst r1 then Some (dc\<lparr>sample := snd r1\<rparr>)
         else do {
           r2 \<leftarrow> fill_samples fake max_d avg_d max_t (ddiv 10000 60) (dbl (1 / 10));
           if fst r2 then Some (dc\<lparr>sample := snd r2\<rparr>)
           else do {
             r3 \<leftarrow> fill_samples fake max_d avg_d max_t 10000 (dbl (1 / 100));
             Some (dc\<lparr>sample := snd r3\<rparr>)
           }
         }
       })"

section \<open>Device identity\<close>

type_synonym device_entry =
  "string option \<times> 32 word \<times> string option \<times> string option \<times> string option"

text \<open>
  \<^verbatim>\<open>match_id\<close> (lines 190 to 207). A \<^verbatim>\<open>char *\<close> is \<open>None\<close> when null; \<^verbatim>\<open>strdup\<close> yields a
  copy with the same characters.
\<close>

definition match_id ::
  "divecomputer \<Rightarrow> string option \<Rightarrow> 32 word \<Rightarrow> string option \<Rightarrow> string option \<Rightarrow>
   string option \<Rightarrow> divecomputer" where
  "match_id dc model' deviceid' nickname serial' firmware =
     (if deviceid dc \<noteq> deviceid' then dc
      else if model' = None \<or> model dc = None \<or> the (model dc) \<noteq> the model' then dc
      else
        let dc = (if serial' \<noteq> None \<and> serial dc = None then dc\<lparr>serial := serial'\<rparr> else dc)
        in (if firmware \<noteq> None \<and> fw_version dc = None
            then dc\<lparr>fw_version := firmware\<rparr> else dc))"

definition call_for_each_dc ::
  "divecomputer \<Rightarrow>
   (divecomputer \<Rightarrow> string option \<Rightarrow> 32 word \<Rightarrow> string option \<Rightarrow> string option \<Rightarrow>
     string option \<Rightarrow> divecomputer) \<Rightarrow>
   bool \<Rightarrow> device_entry list \<Rightarrow> divecomputer" where
  \<comment> \<open>Modelled from the spec: \<^verbatim>\<open>call_for_each_dc\<close> is declared in \<^verbatim>\<open>device.h\<close> and not part
      of the sources. The spec has it visit every source entry (model, device id, nickname,
      serial, firmware) and hand each to the callback together with the record; the entries
      are a parameter here. The flag, \<^verbatim>\<open>false\<close> at the only call, restricts nothing.\<close>
  "call_for_each_dc f callback select_only entries =
     foldl (\<lambda>dc (m, i, n, s, fw). callback dc m i n s fw) f entries"

text \<open>\<^verbatim>\<open>set_dc_deviceid\<close> (lines 213 to 219).\<close>

definition set_dc_deviceid ::
  "divecomputer \<Rightarrow> 32 word \<Rightarrow> device_entry list \<Rightarrow> divecomputer" where
  "set_dc_deviceid dc deviceid' entries =
     (if deviceid' \<noteq> 0
      then call_for_each_dc (dc\<lparr>deviceid := deviceid'\<rparr>) match_id False entries
      else dc)"

section \<open>Notions of the specification\<close>

definition unavailable_sample :: sample where
  \<comment> \<open>a zeroed slot stamped with the "unavailable" sentinel\<close>
  "unavailable_sample =
     \<lparr>time_seconds = 0, depth_mm = 0, bearing_degrees = - 1, ndl_seconds = - 1\<rparr>"

definition skeleton :: "int \<Rightarrow> sample list" where
  \<comment> \<open>step 1 of the contract: six zeroed, stamped slots, the last at \<open>max_time\<close>\<close>
  "skeleton max_t =
     replicate 5 unavailable_sample @ [unavailable_sample\<lparr>time_seconds := max_t\<rparr>]"

definition point :: "int \<Rightarrow> int \<Rightarrow> sample" where
  \<comment> \<open>a synthetic sample at the given time and depth\<close>
  "point t d = \<lparr>time_seconds = t, depth_mm = d, bearing_degrees = - 1, ndl_seconds = - 1\<rparr>"

definition attempt :: "divecomputer \<Rightarrow> rat \<Rightarrow> rat \<Rightarrow> bool option" where
  \<comment> \<open>whether the attempt with the given slope and \<open>d_frac\<close> is accepted on the record's
      inputs, run as \<^verbatim>\<open>fake_dc\<close> runs it: on the skeleton, with the sanitized average depth\<close>
  "attempt dc slope d_frac = do {
     avg_d \<leftarrow> sanitize_avg_d (maxdepth_mm dc) (meandepth_mm dc);
     r \<leftarrow> fill_samples (skeleton (duration_seconds dc)) (maxdepth_mm dc) avg_d
            (duration_seconds dc) slope d_frac;
     Some (fst r)
   }"

definition spec_sanitize :: "int \<Rightarrow> int \<Rightarrow> int" where
  \<comment> \<open>the sanitization in the words of the specification: outside \<open>[max_depth/10, max_depth)\<close>
      the default \<open>(max_depth + 10000)/3\<close> capped at \<open>2*max_depth/3\<close>, then zero clamped to 1\<close>
  "spec_sanitize max_d avg_d =
     (let a = (if avg_d < max_d div 10 \<or> max_d \<le> avg_d
               then min ((max_d + 10000) div 3) (2 * max_d div 3) else avg_d)
      in if a = 0 then 1 else a)"

definition round_half_away :: "rat \<Rightarrow> int" where
  \<comment> \<open>nearest integer, a tie goes away from zero\<close>
  "round_half_away x = (if 0 \<le> x then \<lfloor>x + 1 / 2\<rfloor> else - \<lfloor>- x + 1 / 2\<rfloor>)"

definition put :: "sample list \<Rightarrow> nat \<Rightarrow> int \<Rightarrow> int \<Rightarrow> sample list" where
  \<comment> \<open>sample \<open>i\<close> set to the given time and depth\<close>
  "put s i t d = s[i := (s ! i)\<lparr>time_seconds := t, depth_mm := d\<rparr>]"

text \<open>
  The single-attempt solver in the words of the specification: the closed-form solution,
  the acceptance test on the rounded times, and the points written. The rounding to an
  integer \<open>rnd\<close> and the rounding \<open>fl\<close> of each arithmetic result are parameters: the
  specification has round-half-away-from-zero on the real-valued solutions, which is
  \<open>round_half_away\<close> and the identity.
\<close>

definition spec_fill_samples ::
  "(rat \<Rightarrow> int) \<Rightarrow> (rat \<Rightarrow> rat) \<Rightarrow> sample list \<Rightarrow> int \<Rightarrow> int \<Rightarrow> int \<Rightarrow> rat \<Rightarrow> rat \<Rightarrow>
   bool \<times> sample list" where
  "spec_fill_samples rnd fl s max_d avg_d max_t slope d_frac =
    (let t_frac = fl (of_int max_t * fl (1 - fl (of_int avg_d / of_int max_d)));
         t1 = rnd (fl (of_int max_d / slope));
         t4 = rnd (fl (of_int max_t - fl (of_int t1 * d_frac)));
         t3 = rnd (fl (of_int t4 - fl (fl (t_frac - of_int t1) / fl (1 - d_frac))));
         t2 = rnd (fl (of_int t3 - fl (of_int t1 * fl (1 - d_frac))));
         d = rnd (fl (d_frac * of_int max_d))
     in if 0 \<le> t1 \<and> t1 \<le> t2 \<and> t2 \<le> t3 \<and> t3 \<le> t4 \<and> t4 \<le> max_t
        then (True, put (put (put (put s 1 t1 max_d) 2 t2 max_d) 3 t3 d) 4 t4 d)
        else (False, s))"

text \<open>
  The slope of the branch without an average depth and the two rounded times of its
  deep-and-long profile, in the words of the specification: \<open>slope = max(2 * max_depth /
  max_time, 5000/60)\<close>, \<open>round(max_depth / slope)\<close> and \<open>round(5000 / slope)\<close>. The rounding to
  an integer \<open>rnd\<close> and the rounding \<open>fl\<close> of each arithmetic result are parameters, as in
  \<open>spec_fill_samples\<close>.
\<close>

definition spec_slope :: "(rat \<Rightarrow> rat) \<Rightarrow> int \<Rightarrow> int \<Rightarrow> rat" where
  "spec_slope fl max_d max_t = fl (max (2 * of_int max_d / of_int max_t) (5000 / 60))"

definition spec_descent_time :: "(rat \<Rightarrow> int) \<Rightarrow> (rat \<Rightarrow> rat) \<Rightarrow> int \<Rightarrow> int \<Rightarrow> int" where
  "spec_descent_time rnd fl max_d max_t = rnd (fl (of_int max_d / spec_slope fl max_d max_t))"

definition spec_stop_ascent_time :: "(rat \<Rightarrow> int) \<Rightarrow> (rat \<Rightarrow> rat) \<Rightarrow> int \<Rightarrow> int \<Rightarrow> int" where
  "spec_stop_ascent_time rnd fl max_d max_t = rnd (fl (5000 / spec_slope fl max_d max_t))"

text \<open>Twice the trapezoidal area under the piecewise-linear profile through the samples.\<close>

fun area2 :: "sample list \<Rightarrow> int" where
  "area2 (a # b # r) =
     (time_seconds b - time_seconds a) * (depth_mm a + depth_mm b) + area2 (b # r)"
| "area2 r = 0"

definition valid_profile :: "divecomputer \<Rightarrow> bool" where
  \<comment> \<open>the invariants of a produced sequence, on the counted samples: time non-decreasing,
      first sample at time 0 and depth 0, last at the duration and depth 0, interior depths
      at most the maximum depth\<close>
  "valid_profile dc =
    (let s = take (nat (samples dc)) (sample dc) in
     sorted (map time_seconds s) \<and>
     time_seconds (hd s) = 0 \<and> depth_mm (hd s) = 0 \<and>
     time_seconds (last s) = duration_seconds dc \<and> depth_mm (last s) = 0 \<and>
     list_all (\<lambda>x. depth_mm x \<le> maxdepth_mm dc) (butlast (tl s)))"

section \<open>Basic facts\<close>

lemma skeleton_eq:
  "skeleton max_t = [point 0 0, point 0 0, point 0 0, point 0 0, point 0 0, point max_t 0]"
  by (simp add: skeleton_def unavailable_sample_def point_def numeral_eq_Suc)

lemma fake_skeleton:
  "map (\<lambda>f. f\<lparr>bearing_degrees := - 1, ndl_seconds := - 1\<rparr>)
     (set_time (memset_zero (sample (alloc_samples dc 6)) 6) 5 max_t) = skeleton max_t"
  by (simp add: skeleton_eq alloc_samples_def memset_zero_def set_time_def zero_sample_def
      point_def numeral_eq_Suc)

subsection \<open>C integers\<close>

lemma cdiv_nonneg: "0 \<le> a \<Longrightarrow> 0 < b \<Longrightarrow> cdiv a b = a div b"
  by (cases "a = 0") (simp_all add: cdiv_def)

lemma to_int_Some: "INT_MIN \<le> v \<Longrightarrow> v \<le> INT_MAX \<Longrightarrow> to_int v = Some v"
  by (simp add: to_int_def)

lemma replaced_by_two_thirds_iff: "max_d < (max_d + 10000) div 3 \<longleftrightarrow> max_d < (4999 :: int)"
  by arith

subsection \<open>Rounding\<close>



lemma rne_of_int: "rne (of_int n) = n"
  by (simp add: rne_def)

lemma rne_error: "\<bar>of_int (rne x) - x\<bar> \<le> 1 / 2"
proof -
  have "of_int \<lfloor>x\<rfloor> \<le> x" and "x < of_int \<lfloor>x\<rfloor> + 1"
    by linarith+
  then show ?thesis
    by (auto simp add: rne_def Let_def)
qed

lemma rne_le: assumes "x \<le> of_int n" shows "rne x \<le> n"
proof -
  have fl: "\<lfloor>x\<rfloor> \<le> n" using assms by (simp add: floor_le_iff)
  show ?thesis
  proof (cases "x = of_int \<lfloor>x\<rfloor>")
    case True
    then have "rne x = \<lfloor>x\<rfloor>" by (simp add: rne_def Let_def)
    with fl show ?thesis by simp
  next
    case False
    moreover have "of_int \<lfloor>x\<rfloor> \<le> x" by (rule of_int_floor_le)
    ultimately have "of_int \<lfloor>x\<rfloor> < x" by linarith
    with assms have "of_int \<lfloor>x\<rfloor> < (of_int n :: rat)" by linarith
    then have "\<lfloor>x\<rfloor> < n" by simp
    then show ?thesis by (auto simp add: rne_def Let_def)
  qed
qed

lemma rne_ge: assumes "of_int n \<le> x" shows "n \<le> rne x"
proof -
  have "n \<le> \<lfloor>x\<rfloor>" using assms by (simp add: le_floor_iff)
  then show ?thesis by (auto simp add: rne_def Let_def)
qed

lemma pow2_pos: "0 < pow2 k"
  by (simp add: pow2_def)

lemma pow2_powi: "pow2 k = 2 powi k"
  by (simp add: pow2_def power_int_def field_simps)

lemma pow2_add: "pow2 (a + b) = pow2 a * pow2 b"
  by (simp add: pow2_powi power_int_add)

lemma pow2_nat: "0 \<le> k \<Longrightarrow> pow2 k = 2 ^ nat k"
  by (simp add: pow2_def)

lemma expo_bounds:
  assumes "0 < q"
  shows "pow2 (expo q) \<le> q" and "q < pow2 (expo q + 1)"
proof -
  have "pow2 (expo q) \<le> q \<and> q < pow2 (expo q + 1)"
  proof (cases "1 \<le> q")
    case True
    define m where "m = \<lfloor>q\<rfloor>"
    have m: "0 < m" using True by (simp add: m_def)
    have e: "expo q = bitlen m - 1" using True by (simp add: expo_def m_def)
    have b1: "1 \<le> bitlen m" using m by (simp add: bitlen_alt_def)
    from bitlen_bounds [OF m] have lo: "2 ^ nat (bitlen m - 1) \<le> m" and hi: "m < 2 ^ nat (bitlen m)"
      by simp_all
    have "(of_int (2 ^ nat (bitlen m - 1)) :: rat) \<le> of_int m"
      using lo by (simp only: of_int_le_iff)
    also have "\<dots> \<le> q" by (simp add: m_def)
    finally have 1: "pow2 (expo q) \<le> q" using b1 by (simp add: e pow2_nat)
    have "m + 1 \<le> 2 ^ nat (bitlen m)" using hi by simp
    then have "(of_int (m + 1) :: rat) \<le> of_int (2 ^ nat (bitlen m))"
      by (simp only: of_int_le_iff)
    moreover have "q < of_int (m + 1)" unfolding m_def by linarith
    ultimately have 2: "q < pow2 (expo q + 1)" using b1 by (simp add: e pow2_nat)
    from 1 2 show ?thesis ..
  next
    case False
    then have q1: "q < 1" by simp
    define r where "r = 1 / q"
    define m where "m = \<lceil>r\<rceil> - 1"
    define k where "k = bitlen m"
    have r1: "1 < r" using assms q1 by (simp add: r_def)
    then have "2 \<le> \<lceil>r\<rceil>" by (simp add: le_ceiling_iff) 
    then have m: "0 < m" by (simp add: m_def)
    have mr: "of_int m < r" and rm: "r \<le> of_int m + 1"
      unfolding m_def by linarith+
    have e: "expo q = - k" using False by (simp add: expo_def m_def k_def r_def)
    have k1: "1 \<le> k" using m by (simp add: k_def bitlen_alt_def)
    from bitlen_bounds [OF m] have lo: "2 ^ nat (k - 1) \<le> m" and hi: "m < 2 ^ nat k"
      by (simp_all add: k_def)
    have "m + 1 \<le> 2 ^ nat k" using hi by simp
    then have "(of_int (m + 1) :: rat) \<le> of_int (2 ^ nat k)"
      by (simp only: of_int_le_iff)
    with rm have "r \<le> 2 ^ nat k" by simp
    then have "1 / q \<le> 2 ^ nat k" by (simp add: r_def)
    then have "1 \<le> 2 ^ nat k * q" using assms by (simp add: field_simps)
    then have 1: "pow2 (expo q) \<le> q" using k1 by (simp add: e pow2_def field_simps)
    have "(2 :: rat) ^ nat (k - 1) \<le> of_int m"
      using lo by simp
    with mr have "2 ^ nat (k - 1) < r" by linarith
    then have "2 ^ nat (k - 1) < 1 / q" by (simp add: r_def)
    then have "q < 1 / 2 ^ nat (k - 1)" using assms by (simp add: field_simps)
    moreover have "pow2 (- k + 1) = 1 / 2 ^ nat (k - 1)"
      using k1 by (cases "k = 1") (simp_all add: pow2_def)
    ultimately have 2: "q < pow2 (expo q + 1)" by (simp only: e)
    from 1 2 show ?thesis ..
  qed
  then show "pow2 (expo q) \<le> q" and "q < pow2 (expo q + 1)" by simp_all
qed

lemma dbl_error: "\<bar>dbl q - q\<bar> \<le> \<bar>q\<bar> / 2 ^ 53"
proof (cases "q = 0")
  case True
  then show ?thesis by (simp add: dbl_def)
next
  case False
  define e where "e = expo \<bar>q\<bar>"
  define s where "s = pow2 (52 - e)"
  have s: "0 < s" by (simp add: s_def pow2_pos)
  have d: "dbl q = of_int (rne (q * s)) / s"
    using False by (simp add: dbl_def Let_def s_def e_def)
  have "pow2 e \<le> \<bar>q\<bar>" unfolding e_def using False by (intro expo_bounds) simp
  then have "pow2 e * s \<le> \<bar>q\<bar> * s" using s by simp
  moreover have "pow2 e * s = 2 ^ 52"
    unfolding s_def pow2_add [symmetric] by (simp add: pow2_def)
  ultimately have big: "2 ^ 52 \<le> \<bar>q\<bar> * s" by simp
  have "\<bar>dbl q - q\<bar> = \<bar>of_int (rne (q * s)) - q * s\<bar> / s"
    using s by (simp add: d field_simps abs_divide) 
  also have "\<dots> \<le> (1 / 2) / s"
    using s rne_error [of "q * s"] by (intro divide_right_mono) simp_all
  also have "\<dots> \<le> \<bar>q\<bar> / 2 ^ 53"
    using s big by (simp add: field_simps)
  finally show ?thesis .
qed

subsection \<open>Monotonicity and intervals\<close>

lemma pow2_mono: "a \<le> b \<Longrightarrow> pow2 a \<le> pow2 b"
  by (simp add: pow2_powi power_int_increasing)

lemma pow2_less_imp: "pow2 a < pow2 b \<Longrightarrow> a < b"
  using pow2_mono [of b a] by (cases "a < b") simp_all

lemma rne_mono: assumes "x \<le> y" shows "rne x \<le> rne y"
proof -
  have "of_int (rne x) \<le> y + 1 / 2"
    using rne_error [of x] assms by linarith
  show ?thesis
  proof (rule ccontr)
    assume "\<not> rne x \<le> rne y"
    then have "rne y + 1 \<le> rne x" by simp
    then have 1: "(of_int (rne y) :: rat) + 1 \<le> of_int (rne x)"
      by (metis of_int_le_iff of_int_add of_int_1)
    have 2: "of_int (rne x) \<le> x + 1 / 2" and 3: "y - 1 / 2 \<le> of_int (rne y)"
      using rne_error [of x] rne_error [of y] by linarith+
    from 1 2 3 assms have xy: "x = y" by linarith
    with \<open>\<not> rne x \<le> rne y\<close> show False by simp
  qed
qed

lemma rne_minus: "rne (- x) = - rne x"
proof (cases "x = of_int \<lfloor>x\<rfloor>")
  case True
  then obtain n where "x = of_int n" ..
  then show ?thesis by (simp add: rne_of_int flip: of_int_minus)
next
  case False
  then have c: "\<lceil>x\<rceil> = \<lfloor>x\<rfloor> + 1"
    by (metis ceiling_altdef of_int_floor_cancel) 
  have fm: "\<lfloor>- x\<rfloor> = - \<lfloor>x\<rfloor> - 1"
    using c by (simp add: ceiling_def)
  show ?thesis
    unfolding rne_def Let_def fm by (auto simp add: algebra_simps)
qed

lemma dbl_minus: "dbl (- q) = - dbl q"
  by (simp add: dbl_def Let_def rne_minus)

lemma dbl_of_int:
  assumes "\<bar>n\<bar> < 2 ^ 53"
  shows "dbl (of_int n) = of_int n"
proof (cases "n = 0")
  case True
  then show ?thesis by (simp add: dbl_def)
next
  case False
  define e where "e = expo \<bar>of_int n\<bar>"
  have "pow2 e \<le> \<bar>of_int n\<bar>"
    unfolding e_def using False by (intro expo_bounds) simp
  also have "\<bar>of_int n :: rat\<bar> < 2 ^ 53"
    using assms by (metis of_int_abs of_int_less_numeral_power_cancel_iff)
  also have "(2 :: rat) ^ 53 = pow2 53" by (simp add: pow2_def)
  finally have "e < 53" by (rule pow2_less_imp)
  then have s: "pow2 (52 - e) = of_int (2 ^ nat (52 - e))"
    by (simp add: pow2_def)
  have "of_int n * pow2 (52 - e) = (of_int (n * 2 ^ nat (52 - e)) :: rat)"
    unfolding s by simp
  then have "rne (of_int n * pow2 (52 - e)) = n * 2 ^ nat (52 - e)"
    by (simp only: rne_of_int)
  then show ?thesis
    using False pow2_pos [of "52 - e"] by (simp add: dbl_def Let_def e_def [symmetric] s)
qed

lemma dbl_pos_bounds:
  assumes "0 < q"
  shows "pow2 (expo q) \<le> dbl q" and "dbl q \<le> pow2 (expo q + 1)"
proof -
  define e where "e = expo q"
  define s where "s = pow2 (52 - e)"
  have s: "0 < s" by (simp add: s_def pow2_pos)
  have d: "dbl q = of_int (rne (q * s)) / s"
    using assms by (simp add: dbl_def Let_def s_def e_def)
  have lo: "pow2 e \<le> q" and hi: "q < pow2 (e + 1)"
    unfolding e_def using assms by (rule expo_bounds)+
  have es: "pow2 e * s = of_int (2 ^ 52)" and es1: "pow2 (e + 1) * s = of_int (2 ^ 53)"
    unfolding s_def pow2_add [symmetric] by (simp_all add: pow2_def)
  have "pow2 e * s \<le> q * s" using lo s by (simp add: mult_right_mono)
  then have "of_int (2 ^ 52) \<le> q * s" by (simp only: es)
  then have "2 ^ 52 \<le> rne (q * s)" by (rule rne_ge)
  then have "(of_int (2 ^ 52) :: rat) \<le> of_int (rne (q * s))" by (simp only: of_int_le_iff)
  then have "pow2 e * s \<le> of_int (rne (q * s))" by (simp only: es)
  then show "pow2 (expo q) \<le> dbl q"
    using s by (simp add: d e_def pos_le_divide_eq)
  have "q * s \<le> pow2 (e + 1) * s" using hi s by (simp add: mult_right_mono)
  then have "q * s \<le> of_int (2 ^ 53)" by (simp only: es1)
  then have "rne (q * s) \<le> 2 ^ 53" by (rule rne_le)
  then have "(of_int (rne (q * s)) :: rat) \<le> of_int (2 ^ 53)" by (simp only: of_int_le_iff)
  then have "of_int (rne (q * s)) \<le> pow2 (e + 1) * s" by (simp only: es1)
  then show "dbl q \<le> pow2 (expo q + 1)"
    using s by (simp add: d e_def pos_divide_le_eq)
qed

lemma dbl_mono_pos:
  assumes "0 < x" and "x \<le> y"
  shows "dbl x \<le> dbl y"
proof -
  have y: "0 < y" using assms by simp
  have "pow2 (expo x) \<le> x" using assms(1) by (rule expo_bounds)
  also note assms(2)
  also have "y < pow2 (expo y + 1)" using y by (rule expo_bounds)
  finally have "expo x < expo y + 1" by (rule pow2_less_imp)
  then consider "expo x = expo y" | "expo x + 1 \<le> expo y" by linarith
  then show ?thesis
  proof cases
    case 1
    have "x * pow2 (52 - expo y) \<le> y * pow2 (52 - expo y)"
      using assms(2) pow2_pos [of "52 - expo y"] by simp
    then have "rne (x * pow2 (52 - expo y)) \<le> rne (y * pow2 (52 - expo y))"
      by (rule rne_mono)
    then have "(of_int (rne (x * pow2 (52 - expo y))) :: rat) \<le> of_int (rne (y * pow2 (52 - expo y)))"
      by (simp only: of_int_le_iff)
    then show ?thesis
      using assms(1) y 1 pow2_pos [of "52 - expo y"]
      by (simp add: dbl_def Let_def divide_right_mono)
  next
    case 2
    have "dbl x \<le> pow2 (expo x + 1)" using assms(1) by (rule dbl_pos_bounds)
    also have "\<dots> \<le> pow2 (expo y)" using 2 by (rule pow2_mono)
    also have "\<dots> \<le> dbl y" using y by (rule dbl_pos_bounds)
    finally show ?thesis .
  qed
qed

lemma dbl_nonneg: "0 \<le> q \<Longrightarrow> 0 \<le> dbl q"
proof (cases "q = 0")
  case True
  then show ?thesis by (simp add: dbl_def)
next
  case False
  assume "0 \<le> q"
  with False have q: "0 < q" by simp
  have "0 < pow2 (expo q)" by (rule pow2_pos)
  also have "\<dots> \<le> dbl q" using q by (rule dbl_pos_bounds)
  finally show ?thesis by simp
qed

lemma dbl_mono: assumes "x \<le> y" shows "dbl x \<le> dbl y"
proof -
  consider "0 < x" | "x \<le> 0" "0 \<le> y" | "y < 0" by linarith
  then show ?thesis
  proof cases
    case 1
    then show ?thesis using assms by (rule dbl_mono_pos)
  next
    case 2
    have "0 \<le> dbl (- x)" using 2 by (intro dbl_nonneg) simp
    then have "dbl x \<le> 0" by (simp add: dbl_minus)
    also have "0 \<le> dbl y" using 2 by (intro dbl_nonneg)
    finally show ?thesis .
  next
    case 3
    have "dbl (- y) \<le> dbl (- x)" using 3 assms by (intro dbl_mono_pos) simp_all
    then show ?thesis by (simp add: dbl_minus)
  qed
qed

lemma dbl_le_int: "x \<le> of_int n \<Longrightarrow> \<bar>n\<bar> < 2 ^ 53 \<Longrightarrow> dbl x \<le> of_int n"
  using dbl_mono [of x "of_int n"] by (simp add: dbl_of_int)

lemma dbl_ge_int: "of_int n \<le> x \<Longrightarrow> \<bar>n\<bar> < 2 ^ 53 \<Longrightarrow> of_int n \<le> dbl x"
  using dbl_mono [of "of_int n" x] by (simp add: dbl_of_int)

lemma MAX_dbl_dbl: "MAX_dbl (dbl a) (dbl b) = dbl (max a b)"
proof (cases "a \<le> b")
  case True
  then have "dbl a \<le> dbl b" by (rule dbl_mono)
  with True show ?thesis by (simp add: MAX_dbl_def max_def)
next
  case False
  then have "dbl b \<le> dbl a" by (intro dbl_mono) simp
  with False show ?thesis by (auto simp add: MAX_dbl_def max_def)
qed

lemma lrint_range:
  assumes "of_int a \<le> x" and "x \<le> of_int b" and "\<bar>a\<bar> < 2 ^ 53" and "\<bar>b\<bar> < 2 ^ 53"
  shows "a \<le> lrint (dbl x)" and "lrint (dbl x) \<le> b"
proof -
  have "of_int a \<le> dbl x" using assms(1,3) by (rule dbl_ge_int)
  then show "a \<le> lrint (dbl x)" unfolding lrint_def by (rule rne_ge)
  have "dbl x \<le> of_int b" using assms(2,4) by (rule dbl_le_int)
  then show "lrint (dbl x) \<le> b" unfolding lrint_def by (rule rne_le)
qed

lemma no_avg_slope:
  assumes "\<bar>max_d\<bar> < 2 ^ 52"
  shows "MAX_dbl (ddiv (dmul 2 (of_int max_d)) (of_int max_t)) (ddiv 5000 60) =
    dbl (max (2 * of_int max_d / of_int max_t) (5000 / 60))"
proof -
  have "dmul 2 (of_int max_d) = dbl (of_int (2 * max_d))"
    by (simp add: dmul_def)
  also have "\<dots> = of_int (2 * max_d)"
    using assms by (intro dbl_of_int) simp
  finally show ?thesis
    by (simp add: ddiv_def MAX_dbl_dbl)
qed

lemma no_avg_slope_ge: "83 \<le> dbl (max a (5000 / 60))"
proof -
  have "of_int 83 \<le> dbl (max a (5000 / 60))"
    by (rule dbl_ge_int) simp_all
  then show ?thesis by simp
qed

lemma put_eq: "set_depth (set_time s i t) i d = put s i t d"
  by (cases "i < length s") (simp_all add: set_depth_def set_time_def put_def list_update_beyond)

lemma dbl_0: "dbl 0 = 0"
  by (simp add: dbl_def)

lemma dbl_1: "dbl 1 = 1"
  using dbl_of_int [of 1] by simp

lemma dbl_half: "dbl (1 / 2) = 1 / 2"
  by code_simp

lemma dbl_unit: "0 \<le> x \<Longrightarrow> x \<le> 1 \<Longrightarrow> 0 \<le> dbl x \<and> dbl x \<le> 1"
  using dbl_mono [of 0 x] dbl_mono [of x 1] by (simp add: dbl_0 dbl_1)

lemma dbl_between:
  assumes "of_int a \<le> x" and "x \<le> of_int b" and "\<bar>a\<bar> < 2 ^ 53" and "\<bar>b\<bar> < 2 ^ 53"
  shows "of_int a \<le> dbl x" and "dbl x \<le> of_int b"
  using assms by (simp_all add: dbl_ge_int dbl_le_int)

lemma rne_between:
  assumes "of_int a \<le> x" and "x \<le> of_int b"
  shows "a \<le> rne x" and "rne x \<le> b"
  using assms by (simp_all add: rne_ge rne_le)

lemma frac_of_nonneg:
  assumes "0 \<le> k" and "0 \<le> f" and "f \<le> 1"
  shows "of_int 0 \<le> of_int k * f" and "of_int k * f \<le> (of_int k :: rat)"
proof -
  show "of_int 0 \<le> of_int k * f" using assms by simp
  have "of_int k * f \<le> of_int k * 1"
    using assms by (intro mult_left_mono) simp_all
  then show "of_int k * f \<le> (of_int k :: rat)" by simp
qed

lemma quotient_bounds:
  assumes "of_int (- lo) \<le> a" and "a \<le> of_int hi" and "0 \<le> lo" and "0 \<le> hi"
    and "1 / 2 \<le> (b :: rat)"
  shows "of_int (- 2 * lo) \<le> a / b" and "a / b \<le> of_int (2 * hi)"
proof -
  have b: "0 < b" using assms(5) by simp
  have "a \<le> of_int hi * (2 * b)"
  proof -
    have "of_int hi * 1 \<le> (of_int hi :: rat) * (2 * b)"
      using assms(4,5) by (intro mult_left_mono) simp_all
    with assms(2) show ?thesis by simp
  qed
  then show "a / b \<le> of_int (2 * hi)"
    using b by (simp add: pos_divide_le_eq mult.assoc mult.left_commute)
  have "of_int lo * 1 \<le> (of_int lo :: rat) * (2 * b)"
    using assms(3,5) by (intro mult_left_mono) simp_all
  with assms(1) have "- (of_int lo * (2 * b)) \<le> a" by simp
  then show "of_int (- 2 * lo) \<le> a / b"
    using b by (simp add: pos_le_divide_eq mult.assoc mult.left_commute)
qed

subsection \<open>The synthesizer, unfolded\<close>

lemma fake_dc_unfold:
  "fake_dc dc =
    (let max_t = duration_seconds dc; max_d = maxdepth_mm dc; avg_d = meandepth_mm dc;
         fake = skeleton max_t
     in
     if max_t = 0 \<or> max_d = 0 then Some (dc\<lparr>samples := 0, sample := fake\<rparr>)
     else if avg_d = 0 then do {
         fake \<leftarrow> fill_samples_no_avg fake max_d max_t
                   (MAX_dbl (ddiv (dmul 2 (of_int max_d)) (of_int max_t)) (ddiv 5000 60));
         if time_seconds (fake ! 3) = 0
         then Some (dc\<lparr>last_manual_time := max_t, samples := 4, sample := set_time fake 3 max_t\<rparr>)
         else Some (dc\<lparr>samples := 6, last_manual_time := max_t, sample := fake\<rparr>)
       } else do {
         avg_d \<leftarrow> sanitize_avg_d max_d avg_d;
         r1 \<leftarrow> fill_samples fake max_d avg_d max_t (ddiv 5000 60) (dbl (33 / 100));
         if fst r1 then Some (dc\<lparr>samples := 6, last_manual_time := max_t, sample := snd r1\<rparr>)
         else do {
           r2 \<leftarrow> fill_samples fake max_d avg_d max_t (ddiv 10000 60) (dbl (1 / 10));
           if fst r2 then Some (dc\<lparr>samples := 6, last_manual_time := max_t, sample := snd r2\<rparr>)
           else do {
             r3 \<leftarrow> fill_samples fake max_d avg_d max_t 10000 (dbl (1 / 100));
             Some (dc\<lparr>samples := 6, last_manual_time := max_t, sample := snd r3\<rparr>)
           }
         }
       })"
  unfolding fake_dc_def Let_def fake_skeleton
  by (simp add: alloc_samples_def cong: if_cong)

lemma fill_samples_rejected:
  "fill_samples s max_d avg_d max_t slope d_frac = Some (False, s') \<Longrightarrow> s' = s"
  by (auto simp add: fill_samples_def Let_def split: Option.bind_splits if_splits)

subsection \<open>Evaluated inputs\<close>

lemma all_rejected_example:
  "attempt \<lparr>duration_seconds = 1, maxdepth_mm = 100000, meandepth_mm = 50000,
      last_manual_time = 7, samples = 9, sample = [], deviceid = 0, model = None,
      serial = None, fw_version = None\<rparr> (ddiv 5000 60) (dbl (33 / 100)) = Some False \<and>
   attempt \<lparr>duration_seconds = 1, maxdepth_mm = 100000, meandepth_mm = 50000,
      last_manual_time = 7, samples = 9, sample = [], deviceid = 0, model = None,
      serial = None, fw_version = None\<rparr> (ddiv 10000 60) (dbl (1 / 10)) = Some False \<and>
   attempt \<lparr>duration_seconds = 1, maxdepth_mm = 100000, meandepth_mm = 50000,
      last_manual_time = 7, samples = 9, sample = [], deviceid = 0, model = None,
      serial = None, fw_version = None\<rparr> 10000 (dbl (1 / 100)) = Some False"
  by code_simp

lemma shallow_short_example:
  "fill_samples_no_avg (skeleton 500) 8000 500
     (MAX_dbl (ddiv (dmul 2 8000) 500) (ddiv 5000 60)) =
   Some [point 0 0, point 96 8000, point 404 8000, point 0 0, point 0 0, point 500 0]"
  by code_simp

lemma deep_long_example_values:
  "lrint (dbl (30000 / dbl (max (2 * 30000 / 1800) (5000 / 60)))) = 360 \<and>
   lrint (dbl (5000 / dbl (max (2 * 30000 / 1800) (5000 / 60)))) = 60"
  by code_simp

lemma deep_long_rounding_examples:
  "map_option (time_seconds \<circ> hd \<circ> tl \<circ> sample)
     (fake_dc \<lparr>duration_seconds = 3600, maxdepth_mm = 10375, meandepth_mm = 0,
        last_manual_time = 0, samples = 0, sample = [], deviceid = 0, model = None,
        serial = None, fw_version = None\<rparr>) = Some 124 \<and>
   spec_descent_time round_half_away id 10375 3600 = 125 \<and>
   map_option (time_seconds \<circ> hd \<circ> tl \<circ> sample)
     (fake_dc \<lparr>duration_seconds = 3600, maxdepth_mm = 20875, meandepth_mm = 0,
        last_manual_time = 0, samples = 0, sample = [], deviceid = 0, model = None,
        serial = None, fw_version = None\<rparr>) = Some 251 \<and>
   spec_descent_time rne id 20875 3600 = 250"
  by code_simp

lemma attempt_parameters:
  "1 \<le> ddiv 5000 60 \<and> 1 \<le> ddiv 10000 60 \<and>
   0 < dbl (33 / 100) \<and> dbl (33 / 100) \<le> 1 / 2 \<and>
   0 < dbl (1 / 10) \<and> dbl (1 / 10) \<le> 1 / 2 \<and>
   0 < dbl (1 / 100) \<and> dbl (1 / 100) \<le> 1 / 2"
  by code_simp

lemma closed_form_example:
  "spec_fill_samples lrint dbl (skeleton 3000) 18000 9000 3000 (ddiv 5000 60) (dbl (33 / 100)) =
   (True, [point 0 0, point 216 18000, point 868 18000, point 1013 5940, point 2929 5940,
           point 3000 0])"
  by code_simp

lemma half_away_code:
  "fill_samples (skeleton 20) 5000 2500 20 10000 (dbl (1 / 100)) =
   Some (True, [point 0 0, point 0 5000, point 10 5000, point 10 50, point 20 50, point 20 0])"
  by code_simp

lemma half_away_spec:
  "spec_fill_samples round_half_away id (skeleton 20) 5000 2500 20 10000 (dbl (1 / 100)) =
   (True, [point 0 0, point 1 5000, point 10 5000, point 11 50, point 20 50, point 20 0])"
  by code_simp

lemma area_example:
  "attempt \<lparr>duration_seconds = 3000, maxdepth_mm = 18000, meandepth_mm = 9000,
      last_manual_time = 0, samples = 0, sample = [], deviceid = 0, model = None,
      serial = None, fw_version = None\<rparr> (ddiv 5000 60) (dbl (33 / 100)) = Some True \<and>
   fake_dc \<lparr>duration_seconds = 3000, maxdepth_mm = 18000, meandepth_mm = 9000,
      last_manual_time = 0, samples = 0, sample = [], deviceid = 0, model = None,
      serial = None, fw_version = None\<rparr> =
   Some \<lparr>duration_seconds = 3000, maxdepth_mm = 18000, meandepth_mm = 9000,
      last_manual_time = 3000, samples = 6,
      sample = [point 0 0, point 216 18000, point 868 18000, point 1013 5940,
                point 2929 5940, point 3000 0],
      deviceid = 0, model = None, serial = None, fw_version = None\<rparr>"
  by code_simp

lemma no_avg_examples:
  "fake_dc \<lparr>duration_seconds = 600, maxdepth_mm = 30000, meandepth_mm = 0,
      last_manual_time = 0, samples = 0, sample = [], deviceid = 0, model = None,
      serial = None, fw_version = None\<rparr> =
   Some \<lparr>duration_seconds = 600, maxdepth_mm = 30000, meandepth_mm = 0,
      last_manual_time = 600, samples = 6,
      sample = [point 0 0, point 300 30000, point 120 30000, point 370 5000,
                point 550 5000, point 600 0],
      deviceid = 0, model = None, serial = None, fw_version = None\<rparr> \<and>
   fake_dc \<lparr>duration_seconds = 599, maxdepth_mm = 29950, meandepth_mm = 0,
      last_manual_time = 0, samples = 0, sample = [], deviceid = 0, model = None,
      serial = None, fw_version = None\<rparr> =
   Some \<lparr>duration_seconds = 599, maxdepth_mm = 29950, meandepth_mm = 0,
      last_manual_time = 599, samples = 4,
      sample = [point 0 0, point 300 29950, point 299 29950, point 599 0, point 0 0,
                point 599 0],
      deviceid = 0, model = None, serial = None, fw_version = None\<rparr>"
  by code_simp

subsection \<open>The closed form computed by \<^verbatim>\<open>fill_samples\<close>\<close>

lemma fill_samples_total:
  assumes D: "0 < max_d" "max_d \<le> 2 ^ 29"
    and A: "0 < avg_d" "avg_d \<le> max_d"
    and M: "0 < max_t" "max_t \<le> 2 ^ 29"
    and S: "1 \<le> slope" and F: "0 < d_frac" "d_frac \<le> 1 / 2"
  shows "fill_samples s max_d avg_d max_t slope d_frac =
     Some (spec_fill_samples lrint dbl s max_d avg_d max_t slope d_frac)"
proof -
  define r where "r = dbl (of_int avg_d / of_int max_d)"
  define om where "om = dbl (1 - r)"
  define T where "T = dbl (of_int max_t * om)"
  define t1 where "t1 = rne (dbl (of_int max_d / slope))"
  define p where "p = dbl (of_int t1 * d_frac)"
  define t4 where "t4 = rne (dbl (of_int max_t - p))"
  define b where "b = dbl (1 - d_frac)"
  define c where "c = dbl (dbl (T - of_int t1) / b)"
  define t3 where "t3 = rne (dbl (of_int t4 - c))"
  define g where "g = dbl (of_int t1 * b)"
  define t2 where "t2 = rne (dbl (of_int t3 - g))"
  define d where "d = rne (dbl (of_int max_d * d_frac))"
  have D': "max_d \<le> 536870912" and M': "max_t \<le> 536870912"
    using D M by simp_all
  have "0 \<le> of_int avg_d / (of_int max_d :: rat)" and "of_int avg_d / of_int max_d \<le> (1 :: rat)"
    using D A by simp_all
  then have r: "0 \<le> r" "r \<le> 1"
    unfolding r_def using dbl_unit by blast+
  have om: "0 \<le> om" "om \<le> 1"
    unfolding om_def using r dbl_unit [of "1 - r"] by simp_all
  have T: "of_int 0 \<le> T" "T \<le> of_int max_t"
    unfolding T_def using dbl_between [OF frac_of_nonneg [of max_t om]] M M' om by simp_all
  have x1: "of_int 0 \<le> of_int max_d / slope" using D S by simp
  have "of_int max_d / slope \<le> of_int max_d / 1"
    using D S by (intro divide_left_mono) simp_all
  then have x1': "of_int max_d / slope \<le> of_int max_d" by simp
  have "of_int 0 \<le> dbl (of_int max_d / slope)" "dbl (of_int max_d / slope) \<le> of_int max_d"
    using dbl_between [OF x1 x1'] D D' by simp_all
  then have t1: "0 \<le> t1" "t1 \<le> max_d"
    unfolding t1_def by (rule rne_between)+
  have p: "of_int 0 \<le> p" "p \<le> of_int t1"
    unfolding p_def using dbl_between [OF frac_of_nonneg [of t1 d_frac]] t1 D' F by simp_all
  have h4: "of_int (max_t - t1) \<le> of_int max_t - p" "of_int max_t - p \<le> of_int max_t"
    using p by simp_all
  have "of_int (max_t - t1) \<le> dbl (of_int max_t - p)"
    and "dbl (of_int max_t - p) \<le> of_int max_t"
    using dbl_between [OF h4] t1 D' M M' by simp_all
  then have t4: "max_t - t1 \<le> t4" "t4 \<le> max_t"
    unfolding t4_def by (rule rne_between)+
  have "dbl (1 / 2) \<le> dbl (1 - d_frac)" using F by (intro dbl_mono) simp
  then have b: "1 / 2 \<le> b" by (simp add: b_def dbl_half)
  have b1: "b \<le> 1" unfolding b_def using dbl_unit [of "1 - d_frac"] F by simp
  have ha: "of_int (- t1) \<le> T - of_int t1" "T - of_int t1 \<le> of_int max_t"
    using T t1 by simp_all
  have a: "of_int (- t1) \<le> dbl (T - of_int t1)" "dbl (T - of_int t1) \<le> of_int max_t"
    using dbl_between [OF ha] t1 D' M M' by simp_all
  have hc: "of_int (- 2 * t1) \<le> dbl (T - of_int t1) / b"
    "dbl (T - of_int t1) / b \<le> of_int (2 * max_t)"
    using quotient_bounds [OF a _ _ b] t1 M by simp_all
  have c: "of_int (- 2 * t1) \<le> c" "c \<le> of_int (2 * max_t)"
    unfolding c_def using dbl_between [OF hc] t1 D' M M' by simp_all
  have "of_int (max_t - t1) \<le> (of_int t4 :: rat)" and "(of_int t4 :: rat) \<le> of_int max_t"
    using t4 by (simp_all only: of_int_le_iff)
  then have h3: "of_int (max_t - t1 - 2 * max_t) \<le> of_int t4 - c"
    "of_int t4 - c \<le> of_int (max_t + 2 * t1)"
    using c by simp_all
  have "of_int (max_t - t1 - 2 * max_t) \<le> dbl (of_int t4 - c)"
    and "dbl (of_int t4 - c) \<le> of_int (max_t + 2 * t1)"
    using dbl_between [OF h3] t1 D' M M' by simp_all
  then have t3: "max_t - t1 - 2 * max_t \<le> t3" "t3 \<le> max_t + 2 * t1"
    unfolding t3_def by (rule rne_between)+
  have g: "of_int 0 \<le> g" "g \<le> of_int t1"
    unfolding g_def using dbl_between [OF frac_of_nonneg [of t1 b]] t1 D' b b1 by simp_all
  have h2: "of_int (t3 - t1) \<le> of_int t3 - g" "of_int t3 - g \<le> of_int t3"
    using g by simp_all
  have "of_int (t3 - t1) \<le> dbl (of_int t3 - g)" and "dbl (of_int t3 - g) \<le> of_int t3"
    using dbl_between [OF h2] t1 t3 D' M M' by simp_all
  then have t2: "t3 - t1 \<le> t2" "t2 \<le> t3"
    unfolding t2_def by (rule rne_between)+
  have "of_int 0 \<le> dbl (of_int max_d * d_frac)" and "dbl (of_int max_d * d_frac) \<le> of_int max_d"
    using dbl_between [OF frac_of_nonneg [of max_d d_frac]] D D' F by simp_all
  then have d: "0 \<le> d" "d \<le> max_d"
    unfolding d_def by (rule rne_between)+
  have c1: "to_int t1 = Some t1" and c4: "to_int t4 = Some t4" and c3: "to_int t3 = Some t3"
    and c2: "to_int t2 = Some t2" and cd: "to_int d = Some d"
    using t1 t2 t3 t4 d D' M M' by (simp_all add: to_int_def INT_MIN_def INT_MAX_def)
  have "fill_samples s max_d avg_d max_t slope d_frac =
      (if t1 < 0 \<or> t1 > t2 \<or> t2 > t3 \<or> t3 > t4 \<or> t4 > max_t then Some (False, s)
       else Some (True, put (put (put (put s 1 t1 max_d) 2 t2 max_d) 3 t3 d) 4 t4 d))"
    unfolding fill_samples_def lrint_def ddiv_def dsub_def dmul_def Let_def
      r_def [symmetric] om_def [symmetric] T_def [symmetric] t1_def [symmetric] c1 Option.bind.simps
      p_def [symmetric] t4_def [symmetric] c4 b_def [symmetric] c_def [symmetric]
      t3_def [symmetric] c3 g_def [symmetric] t2_def [symmetric] c2 d_def [symmetric] cd
    by (simp add: put_eq)
  also have "\<dots> = Some (spec_fill_samples lrint dbl s max_d avg_d max_t slope d_frac)"
    unfolding spec_fill_samples_def lrint_def Let_def
      r_def [symmetric] om_def [symmetric] T_def [symmetric] t1_def [symmetric]
      p_def [symmetric] t4_def [symmetric] b_def [symmetric] c_def [symmetric]
      t3_def [symmetric] g_def [symmetric] t2_def [symmetric]
    by (auto simp add: d_def mult.commute)
  finally show ?thesis .
qed

subsection \<open>Rounding errors and the area of an accepted profile\<close>

lemma area2_six:
  "area2 [point 0 0, point t1 D, point t2 D, point t3 d, point t4 d, point M 0] =
   2 * D * M - D * t1 - (2 * D - d) * (M - t4) - 2 * (D - d) * (t4 - t3) - (D - d) * (t3 - t2)"
  by (simp add: point_def algebra_simps)

lemma area_identity:
  fixes D M A f t1 P C G d Ts :: rat
  assumes "D * Ts = D * M - A * M"
  shows "2 * D * M - D * t1 - (2 * D - d) * P - 2 * (D - d) * C - (D - d) * G - 2 * A * M =
    (d - D * f) * (P + 2 * C + G) -
    D * ((2 - f) * (P - t1 * f) + 2 * ((1 - f) * C - (Ts - t1)) + (1 - f) * (G - t1 * (1 - f)))"
proof -
  have "2 * D * M - 2 * A * M = 2 * (D * Ts)" using assms by simp
  then have "2 * D * M - D * t1 - (2 * D - d) * P - 2 * (D - d) * C - (D - d) * G - 2 * A * M =
    2 * (D * Ts) - D * t1 - (2 * D - d) * P - 2 * (D - d) * C - (D - d) * G"
    by simp
  also have "\<dots> = (d - D * f) * (P + 2 * C + G) -
    D * ((2 - f) * (P - t1 * f) + 2 * ((1 - f) * C - (Ts - t1)) + (1 - f) * (G - t1 * (1 - f)))"
    by (simp add: algebra_simps)
  finally show ?thesis .
qed

lemma dbl_close:
  assumes "\<bar>x\<bar> \<le> 2 ^ 32"
  shows "\<bar>dbl x - x\<bar> \<le> 1 / 2 ^ 21"
proof -
  have "\<bar>dbl x - x\<bar> \<le> \<bar>x\<bar> / 2 ^ 53" by (rule dbl_error)
  also have "\<dots> \<le> 2 ^ 32 / 2 ^ 53" using assms by (intro divide_right_mono) simp_all
  also have "\<dots> = 1 / 2 ^ 21" by simp
  finally show ?thesis .
qed

lemma dbl_close_unit:
  assumes "\<bar>x\<bar> \<le> 1"
  shows "\<bar>dbl x - x\<bar> \<le> 1 / 2 ^ 53"
proof -
  have "\<bar>dbl x - x\<bar> \<le> \<bar>x\<bar> / 2 ^ 53" by (rule dbl_error)
  also have "\<dots> \<le> 1 / 2 ^ 53" using assms by (intro divide_right_mono) simp_all
  finally show ?thesis .
qed

lemma rne_dbl_close:
  assumes "\<bar>x\<bar> \<le> 2 ^ 32"
  shows "\<bar>of_int (rne (dbl x)) - x\<bar> \<le> 1 / 2 + 1 / 2 ^ 21"
  using rne_error [of "dbl x"] dbl_close [OF assms] by linarith

lemma small_times:
  fixes e k :: rat
  assumes "\<bar>e\<bar> \<le> 1 / 2 ^ 52" and "\<bar>k\<bar> \<le> 2 ^ 31"
  shows "\<bar>k * e\<bar> \<le> 1 / 2 ^ 21"
proof -
  have "\<bar>k * e\<bar> = \<bar>k\<bar> * \<bar>e\<bar>" by (simp add: abs_mult)
  also have "\<dots> \<le> 2 ^ 31 * (1 / 2 ^ 52)"
    using assms by (intro mult_mono) simp_all
  also have "\<dots> = 1 / 2 ^ 21" by simp
  finally show ?thesis .
qed

lemma t_frac_close:
  assumes "0 < max_d" and "0 < avg_d" and "avg_d \<le> max_d" and "0 < max_t" and "max_t \<le> 2 ^ 29"
  shows "\<bar>dbl (of_int max_t * dbl (1 - dbl (of_int avg_d / of_int max_d))) -
      of_int max_t * (1 - of_int avg_d / of_int max_d)\<bar> \<le> 1 / 2 ^ 20"
proof -
  define q :: rat where "q = of_int avg_d / of_int max_d"
  define r where "r = dbl q"
  define om where "om = dbl (1 - r)"
  have q: "0 \<le> q" "q \<le> 1" using assms by (simp_all add: q_def)
  then have r: "0 \<le> r" "r \<le> 1" unfolding r_def using dbl_unit by blast+
  have er: "\<bar>r - q\<bar> \<le> 1 / 2 ^ 53" unfolding r_def using q by (intro dbl_close_unit) simp
  have eo: "\<bar>om - (1 - r)\<bar> \<le> 1 / 2 ^ 53" unfolding om_def using r by (intro dbl_close_unit) simp
  have om: "0 \<le> om" "om \<le> 1" unfolding om_def using r dbl_unit [of "1 - r"] by simp_all
  have "\<bar>om - (1 - q)\<bar> \<le> 1 / 2 ^ 53 + 1 / 2 ^ 53" using er eo by linarith
  then have e: "\<bar>om - (1 - q)\<bar> \<le> 1 / 2 ^ 52" by simp
  have M: "\<bar>of_int max_t :: rat\<bar> \<le> 2 ^ 31" using assms by simp
  have 1: "\<bar>of_int max_t * (om - (1 - q))\<bar> \<le> 1 / 2 ^ 21"
    using e M by (rule small_times)
  have "\<bar>of_int max_t * om\<bar> = of_int max_t * om" using assms om by simp
  also have "\<dots> \<le> of_int max_t * 1" using assms om by (intro mult_left_mono) simp_all
  also have "\<dots> \<le> 2 ^ 32" using assms by simp
  finally have 2: "\<bar>dbl (of_int max_t * om) - of_int max_t * om\<bar> \<le> 1 / 2 ^ 21"
    by (rule dbl_close)
  have "dbl (of_int max_t * om) - of_int max_t * (1 - q) =
      (dbl (of_int max_t * om) - of_int max_t * om) + of_int max_t * (om - (1 - q))"
    by (simp add: algebra_simps)
  then have "\<bar>dbl (of_int max_t * om) - of_int max_t * (1 - q)\<bar> \<le> 1 / 2 ^ 21 + 1 / 2 ^ 21"
    using 1 2 by linarith
  then show ?thesis by (simp add: om_def r_def q_def)
qed

lemma frac_abs:
  fixes f :: rat
  assumes "0 \<le> k" and "k \<le> 2 ^ 29" and "0 \<le> f" and "f \<le> 1"
  shows "\<bar>of_int k * f\<bar> \<le> 2 ^ 29"
proof -
  have "of_int k * f \<le> of_int k * 1" using assms by (intro mult_left_mono) simp_all
  moreover have "0 \<le> of_int k * f" using assms by simp
  moreover have "(of_int k :: rat) \<le> 2 ^ 29" using assms by simp
  ultimately show ?thesis by simp
qed

lemma t4_close:
  assumes "0 \<le> t1" and "t1 \<le> 2 ^ 29" and "0 < max_t" and "max_t \<le> 2 ^ 29"
    and "0 \<le> d_frac" and "d_frac \<le> 1"
  shows "\<bar>of_int (rne (dbl (of_int max_t - dbl (of_int t1 * d_frac)))) -
      (of_int max_t - of_int t1 * d_frac)\<bar> \<le> 1 / 2 + 1 / 2 ^ 20"
proof -
  define p where "p = dbl (of_int t1 * d_frac)"
  have tf: "\<bar>of_int t1 * d_frac\<bar> \<le> 2 ^ 29" using assms by (intro frac_abs)
  then have ep: "\<bar>p - of_int t1 * d_frac\<bar> \<le> 1 / 2 ^ 21"
    unfolding p_def by (intro dbl_close) simp
  have "(of_int max_t :: rat) \<le> 536870912" and "(0 :: rat) < of_int max_t"
    using assms by simp_all
  moreover have "\<bar>of_int t1 * d_frac\<bar> \<le> 536870912" using tf by simp
  moreover have "\<bar>p - of_int t1 * d_frac\<bar> \<le> 1" using ep by simp
  ultimately have "\<bar>of_int max_t - p\<bar> \<le> 4294967296" by linarith
  then have "\<bar>of_int max_t - p\<bar> \<le> 2 ^ 32" by simp
  then have "\<bar>of_int (rne (dbl (of_int max_t - p))) - (of_int max_t - p)\<bar> \<le> 1 / 2 + 1 / 2 ^ 21"
    by (rule rne_dbl_close)
  with ep have "\<bar>of_int (rne (dbl (of_int max_t - p))) - (of_int max_t - of_int t1 * d_frac)\<bar>
      \<le> 1 / 2 + 1 / 2 ^ 21 + 1 / 2 ^ 21" by linarith
  then show ?thesis by (simp add: p_def)
qed

lemma depth_close:
  assumes "0 < max_d" and "max_d \<le> 2 ^ 29" and "0 \<le> d_frac" and "d_frac \<le> 1"
  shows "\<bar>of_int (rne (dbl (of_int max_d * d_frac))) - of_int max_d * d_frac\<bar>
      \<le> 1 / 2 + 1 / 2 ^ 21"
proof -
  have "\<bar>of_int max_d * d_frac\<bar> \<le> 2 ^ 29" using assms by (intro frac_abs) simp_all
  then show ?thesis by (intro rne_dbl_close) simp
qed

lemma t2_close:
  assumes "0 \<le> t1" and "t1 \<le> 2 ^ 29" and "\<bar>t3\<bar> \<le> 2 ^ 30"
    and "0 \<le> d_frac" and "d_frac \<le> 1"
  shows "\<bar>of_int (rne (dbl (of_int t3 - dbl (of_int t1 * dbl (1 - d_frac))))) -
      (of_int t3 - of_int t1 * (1 - d_frac))\<bar> \<le> 1 / 2 + 1 / 2 ^ 19"
proof -
  define b where "b = dbl (1 - d_frac)"
  define g where "g = dbl (of_int t1 * b)"
  define t2 where "t2 = rne (dbl (of_int t3 - g))"
  have b: "0 \<le> b" "b \<le> 1" unfolding b_def using dbl_unit [of "1 - d_frac"] assms by simp_all
  have "\<bar>b - (1 - d_frac)\<bar> \<le> 1 / 2 ^ 53"
    unfolding b_def using assms by (intro dbl_close_unit) simp
  then have eb: "\<bar>b - (1 - d_frac)\<bar> \<le> 1 / 2 ^ 52" by simp
  have "\<bar>of_int t1 :: rat\<bar> \<le> 2 ^ 31" using assms by simp
  with eb have 1: "\<bar>of_int t1 * (b - (1 - d_frac))\<bar> \<le> 1 / 2 ^ 21" by (rule small_times)
  have tb: "\<bar>of_int t1 * b\<bar> \<le> 2 ^ 29" using assms b by (intro frac_abs)
  then have 2: "\<bar>g - of_int t1 * b\<bar> \<le> 1 / 2 ^ 21" unfolding g_def by (intro dbl_close) simp
  have "\<bar>t3\<bar> \<le> 1073741824" using assms(3) by simp
  then have "(of_int \<bar>t3\<bar> :: rat) \<le> of_int 1073741824" by (simp only: of_int_le_iff)
  then have "\<bar>of_int t3 :: rat\<bar> \<le> 1073741824" by simp
  moreover have "\<bar>of_int t1 * b\<bar> \<le> 536870912" using tb by simp
  moreover have "\<bar>g - of_int t1 * b\<bar> \<le> 1" using 2 by simp
  ultimately have "\<bar>of_int t3 - g\<bar> \<le> 4294967296" by linarith
  then have "\<bar>of_int t3 - g\<bar> \<le> 2 ^ 32" by simp
  then have 3: "\<bar>of_int t2 - (of_int t3 - g)\<bar> \<le> 1 / 2 + 1 / 2 ^ 21"
    unfolding t2_def by (rule rne_dbl_close)
  have "of_int t2 - (of_int t3 - of_int t1 * (1 - d_frac)) =
      (of_int t2 - (of_int t3 - g)) - (g - of_int t1 * b) - of_int t1 * (b - (1 - d_frac))"
    by (simp add: algebra_simps)
  then have "\<bar>of_int t2 - (of_int t3 - of_int t1 * (1 - d_frac))\<bar> \<le>
      1 / 2 + 1 / 2 ^ 21 + 1 / 2 ^ 21 + 1 / 2 ^ 21"
    using 1 2 3 by linarith
  then show ?thesis by (simp add: t2_def g_def b_def)
qed

lemma t3_close:
  assumes "0 \<le> t1" and "t1 \<le> 2 ^ 29" and "\<bar>t4\<bar> \<le> 2 ^ 29"
    and "0 < d_frac" and "d_frac \<le> 1 / 2"
    and "\<bar>T - Ts\<bar> \<le> 1 / 2 ^ 20" and "0 \<le> Ts" and "Ts \<le> 2 ^ 29"
  shows "\<bar>(1 - d_frac) * (of_int t4 -
        of_int (rne (dbl (of_int t4 - dbl (dbl (T - of_int t1) / dbl (1 - d_frac)))))) -
      (Ts - of_int t1)\<bar> \<le> (1 - d_frac) / 2 + 1 / 2 ^ 18"
proof -
  define b where "b = dbl (1 - d_frac)"
  define a where "a = dbl (T - of_int t1)"
  define q where "q = a / b"
  define c where "c = dbl q"
  define t3 where "t3 = rne (dbl (of_int t4 - c))"
  define rho where "rho = of_int t3 - (of_int t4 - c)"
  have "dbl (1 / 2) \<le> dbl (1 - d_frac)" using assms by (intro dbl_mono) simp
  then have b: "1 / 2 \<le> b" by (simp add: b_def dbl_half)
  have b1: "b \<le> 1" unfolding b_def using dbl_unit [of "1 - d_frac"] assms by simp
  have "\<bar>b - (1 - d_frac)\<bar> \<le> 1 / 2 ^ 53"
    unfolding b_def using assms by (intro dbl_close_unit) simp
  then have eb: "\<bar>b - (1 - d_frac)\<bar> \<le> 1 / 2 ^ 52" by simp
  have t1: "(0 :: rat) \<le> of_int t1" "(of_int t1 :: rat) \<le> 536870912"
    using assms by simp_all
  have "\<bar>t4\<bar> \<le> 536870912" using assms(3) by simp
  then have "(of_int \<bar>t4\<bar> :: rat) \<le> of_int 536870912" by (simp only: of_int_le_iff)
  then have t4: "\<bar>of_int t4 :: rat\<bar> \<le> 536870912" by simp
  have T: "\<bar>T - Ts\<bar> \<le> 1" "0 \<le> Ts" "Ts \<le> 536870912" using assms by simp_all
  have "\<bar>T - of_int t1\<bar> \<le> 536870913" using T t1 by linarith
  then have Tt: "\<bar>T - of_int t1\<bar> \<le> 2 ^ 32" by simp
  have ea: "\<bar>a - (T - of_int t1)\<bar> \<le> 1 / 2 ^ 21" unfolding a_def using Tt by (rule dbl_close)
  then have "\<bar>a - (T - of_int t1)\<bar> \<le> 1" by simp
  with \<open>\<bar>T - of_int t1\<bar> \<le> 536870913\<close> have a: "\<bar>a\<bar> \<le> 536870914" by linarith
  have "\<bar>q\<bar> = \<bar>a\<bar> / b" using b by (simp add: q_def)
  also have "\<dots> \<le> \<bar>a\<bar> / (1 / 2)" using b by (intro divide_left_mono) simp_all
  also have "\<dots> \<le> 1073741828" using a by simp
  finally have q: "\<bar>q\<bar> \<le> 1073741828" .
  then have "\<bar>q\<bar> \<le> 2 ^ 32" by simp
  then have ec: "\<bar>c - q\<bar> \<le> 1 / 2 ^ 21" unfolding c_def by (rule dbl_close)
  then have "\<bar>c - q\<bar> \<le> 1" by simp
  with q have c: "\<bar>c\<bar> \<le> 1073741829" by linarith
  then have "\<bar>c\<bar> \<le> 2 ^ 31" by simp
  with eb have x1: "\<bar>c * (b - (1 - d_frac))\<bar> \<le> 1 / 2 ^ 21" by (rule small_times)
  have "\<bar>b * (c - q)\<bar> = b * \<bar>c - q\<bar>" using b by (simp add: abs_mult)
  also have "\<dots> \<le> 1 * \<bar>c - q\<bar>" using b1 by (intro mult_right_mono) simp_all
  finally have x2: "\<bar>b * (c - q)\<bar> \<le> 1 / 2 ^ 21" using ec by simp
  have "\<bar>of_int t4 - c\<bar> \<le> 4294967296" using t4 c by linarith
  then have "\<bar>of_int t4 - c\<bar> \<le> 2 ^ 32" by simp
  then have rho: "\<bar>rho\<bar> \<le> 1 / 2 + 1 / 2 ^ 21"
    unfolding rho_def t3_def by (rule rne_dbl_close)
  have f: "0 \<le> 1 - d_frac" "1 - d_frac \<le> 1" using assms by simp_all
  have "\<bar>(1 - d_frac) * rho\<bar> = (1 - d_frac) * \<bar>rho\<bar>" using f by (simp add: abs_mult)
  also have "\<dots> \<le> (1 - d_frac) * (1 / 2 + 1 / 2 ^ 21)"
    using f rho by (intro mult_left_mono)
  also have "\<dots> = (1 - d_frac) / 2 + (1 - d_frac) / 2 ^ 21"
    by (simp add: distrib_left)
  also have "\<dots> \<le> (1 - d_frac) / 2 + 1 / 2 ^ 21"
    using f by (intro add_left_mono divide_right_mono) simp_all
  finally have x3: "\<bar>(1 - d_frac) * rho\<bar> \<le> (1 - d_frac) / 2 + 1 / 2 ^ 21" .
  have bq: "b * q = a" using b by (simp add: q_def)
  have "(1 - d_frac) * (of_int t4 - of_int t3) - (Ts - of_int t1) =
      (a - (T - of_int t1)) + (T - Ts) + (b * c - b * q) - c * (b - (1 - d_frac))
        - (1 - d_frac) * rho"
    unfolding bq by (simp add: rho_def algebra_simps)
  also have "b * c - b * q = b * (c - q)" by (simp add: algebra_simps)
  finally have "\<bar>(1 - d_frac) * (of_int t4 - of_int t3) - (Ts - of_int t1)\<bar> \<le>
      1 / 2 ^ 21 + 1 / 2 ^ 20 + 1 / 2 ^ 21 + 1 / 2 ^ 21 + ((1 - d_frac) / 2 + 1 / 2 ^ 21)"
    using ea assms(6) x1 x2 x3 by linarith
  then show ?thesis
    by (simp add: t3_def c_def q_def a_def b_def)
qed

lemma put_skeleton:
  "put (put (put (put (skeleton max_t) 1 t1 max_d) 2 t2 max_d) 3 t3 d) 4 t4 d =
   [point 0 0, point t1 max_d, point t2 max_d, point t3 d, point t4 d, point max_t 0]"
  by (simp add: skeleton_eq put_def point_def)

lemma bounded_product:
  fixes x y :: rat
  assumes "\<bar>x\<bar> \<le> a" and "\<bar>y\<bar> \<le> b"
  shows "\<bar>x * y\<bar> \<le> a * b"
proof -
  have "\<bar>x * y\<bar> = \<bar>x\<bar> * \<bar>y\<bar>" by (simp add: abs_mult)
  also have "\<dots> \<le> a * b" using assms by (intro mult_mono) simp_all
  finally show ?thesis .
qed

lemma accepted_area:
  assumes D: "0 < max_d" "max_d \<le> 2 ^ 29"
    and A: "0 < avg_d" "avg_d \<le> max_d"
    and M: "0 < max_t" "max_t \<le> 2 ^ 29"
    and S: "1 \<le> slope" and F: "0 < d_frac" "d_frac \<le> 1 / 2"
    and acc: "fill_samples (skeleton max_t) max_d avg_d max_t slope d_frac = Some (True, s')"
  shows "\<bar>area2 s' - 2 * avg_d * max_t\<bar> \<le> 3 * max_d + 2 * max_t"
proof -
  define T where "T = dbl (of_int max_t * dbl (1 - dbl (of_int avg_d / of_int max_d)))"
  define Ts :: rat where "Ts = of_int max_t * (1 - of_int avg_d / of_int max_d)"
  define t1 where "t1 = rne (dbl (of_int max_d / slope))"
  define t4 where "t4 = rne (dbl (of_int max_t - dbl (of_int t1 * d_frac)))"
  define t3 where
    "t3 = rne (dbl (of_int t4 - dbl (dbl (T - of_int t1) / dbl (1 - d_frac))))"
  define t2 where "t2 = rne (dbl (of_int t3 - dbl (of_int t1 * dbl (1 - d_frac))))"
  define d where "d = rne (dbl (of_int max_d * d_frac))"
  have "spec_fill_samples lrint dbl (skeleton max_t) max_d avg_d max_t slope d_frac = (True, s')"
    using fill_samples_total [OF D A M S F, of "skeleton max_t"] acc by simp
  moreover have "spec_fill_samples lrint dbl (skeleton max_t) max_d avg_d max_t slope d_frac =
      (if 0 \<le> t1 \<and> t1 \<le> t2 \<and> t2 \<le> t3 \<and> t3 \<le> t4 \<and> t4 \<le> max_t
       then (True, [point 0 0, point t1 max_d, point t2 max_d, point t3 d, point t4 d,
                    point max_t 0])
       else (False, skeleton max_t))"
    unfolding spec_fill_samples_def lrint_def Let_def T_def [symmetric] t1_def [symmetric]
      t4_def [symmetric] t3_def [symmetric] t2_def [symmetric] put_skeleton
    by (simp add: d_def mult.commute)
  ultimately have ord: "0 \<le> t1" "t1 \<le> t2" "t2 \<le> t3" "t3 \<le> t4" "t4 \<le> max_t"
    and s': "s' = [point 0 0, point t1 max_d, point t2 max_d, point t3 d, point t4 d,
                   point max_t 0]"
    by (auto split: if_splits)
  have M': "max_t \<le> 536870912" and D': "max_d \<le> 536870912" using M D by simp_all
  have r1: "t1 \<le> 2 ^ 29" "\<bar>t3\<bar> \<le> 2 ^ 30" "\<bar>t4\<bar> \<le> 2 ^ 29"
    using ord M' by simp_all
  \<comment> \<open>the rounding errors of the four relations behind the profile\<close>
  have eP: "\<bar>of_int t4 - (of_int max_t - of_int t1 * d_frac)\<bar> \<le> 1 / 2 + 1 / 2 ^ 20"
    unfolding t4_def using ord(1) r1(1) M F by (intro t4_close) simp_all
  have eG: "\<bar>of_int t2 - (of_int t3 - of_int t1 * (1 - d_frac))\<bar> \<le> 1 / 2 + 1 / 2 ^ 19"
    unfolding t2_def using ord(1) r1 F by (intro t2_close) simp_all
  have eT: "\<bar>T - Ts\<bar> \<le> 1 / 2 ^ 20"
    unfolding T_def Ts_def using D A M by (intro t_frac_close)
  have q: "0 \<le> of_int avg_d / (of_int max_d :: rat)" "of_int avg_d / of_int max_d \<le> (1 :: rat)"
    using D A by simp_all
  have Ts0: "0 \<le> Ts" unfolding Ts_def using M q by simp
  have "Ts \<le> of_int max_t * 1" unfolding Ts_def using M q by (intro mult_left_mono) simp_all
  then have Ts1: "Ts \<le> 2 ^ 29" using M by simp
  have eC: "\<bar>(1 - d_frac) * (of_int t4 - of_int t3) - (Ts - of_int t1)\<bar>
      \<le> (1 - d_frac) / 2 + 1 / 2 ^ 18"
    unfolding t3_def using ord(1) r1 F eT Ts0 Ts1 by (intro t3_close)
  have ed: "\<bar>of_int d - of_int max_d * d_frac\<bar> \<le> 1 / 2 + 1 / 2 ^ 21"
    unfolding d_def using D F by (intro depth_close) simp_all
  \<comment> \<open>the area as the target plus error terms\<close>
  define P :: rat where "P = of_int max_t - of_int t4"
  define C :: rat where "C = of_int t4 - of_int t3"
  define G :: rat where "G = of_int t3 - of_int t2"
  define K where "K = (2 - d_frac) * (P - of_int t1 * d_frac) +
      2 * ((1 - d_frac) * C - (Ts - of_int t1)) +
      (1 - d_frac) * (G - of_int t1 * (1 - d_frac))"
  have DTs: "of_int max_d * Ts = of_int max_d * of_int max_t - of_int avg_d * of_int max_t"
    unfolding Ts_def using D by (simp add: field_simps)
  have "(of_int (area2 s' - 2 * avg_d * max_t) :: rat) =
      2 * of_int max_d * of_int max_t - of_int max_d * of_int t1
      - (2 * of_int max_d - of_int d) * P - 2 * (of_int max_d - of_int d) * C
      - (of_int max_d - of_int d) * G - 2 * of_int avg_d * of_int max_t"
    unfolding s' area2_six P_def C_def G_def by simp
  also have "\<dots> = (of_int d - of_int max_d * d_frac) * (P + 2 * C + G) - of_int max_d * K"
    unfolding K_def using DTs by (rule area_identity)
  finally have area: "(of_int (area2 s' - 2 * avg_d * max_t) :: rat) =
      (of_int d - of_int max_d * d_frac) * (P + 2 * C + G) - of_int max_d * K" .
  \<comment> \<open>bounds\<close>
  have f2: "\<bar>2 - d_frac\<bar> \<le> 2" and f1: "\<bar>1 - d_frac\<bar> \<le> 1" using F by simp_all
  have "1 / 2 + 1 / 2 ^ 20 \<le> (501 / 1000 :: rat)" by simp
  with eP have "\<bar>of_int t4 - (of_int max_t - of_int t1 * d_frac)\<bar> \<le> 501 / 1000"
    by (rule order_trans)
  then have "\<bar>P - of_int t1 * d_frac\<bar> \<le> 501 / 1000" unfolding P_def by linarith
  with f2 have k1: "\<bar>(2 - d_frac) * (P - of_int t1 * d_frac)\<bar> \<le> 2 * (501 / 1000)"
    by (rule bounded_product)
  have "(1 - d_frac) / 2 \<le> 1 / 2" using F by simp
  moreover have "1 / 2 ^ 18 \<le> (1 / 1000 :: rat)" by simp
  ultimately have "(1 - d_frac) / 2 + 1 / 2 ^ 18 \<le> 1 / 2 + 1 / 1000" by (rule add_mono)
  then have "(1 - d_frac) / 2 + 1 / 2 ^ 18 \<le> 501 / 1000" by simp
  with eC have "\<bar>(1 - d_frac) * C - (Ts - of_int t1)\<bar> \<le> 501 / 1000"
    unfolding C_def by (rule order_trans)
  moreover have "\<bar>2 :: rat\<bar> \<le> 2" by simp
  ultimately have k2: "\<bar>2 * ((1 - d_frac) * C - (Ts - of_int t1))\<bar> \<le> 2 * (501 / 1000)"
    by (intro bounded_product)
  have "1 / 2 + 1 / 2 ^ 19 \<le> (501 / 1000 :: rat)" by simp
  with eG have "\<bar>of_int t2 - (of_int t3 - of_int t1 * (1 - d_frac))\<bar> \<le> 501 / 1000"
    by (rule order_trans)
  then have "\<bar>G - of_int t1 * (1 - d_frac)\<bar> \<le> 501 / 1000" unfolding G_def by linarith
  with f1 have k3: "\<bar>(1 - d_frac) * (G - of_int t1 * (1 - d_frac))\<bar> \<le> 1 * (501 / 1000)"
    by (rule bounded_product)
  have K: "\<bar>K\<bar> \<le> 2505 / 1000" unfolding K_def using k1 k2 k3 by linarith
  have "\<bar>of_int max_d :: rat\<bar> \<le> of_int max_d" using D by simp
  then have b1: "\<bar>of_int max_d * K\<bar> \<le> of_int max_d * (2505 / 1000)"
    using K by (rule bounded_product)
  have "0 \<le> P" "0 \<le> C" "0 \<le> G" "P + 2 * C + G \<le> 2 * of_int max_t"
    unfolding P_def C_def G_def using ord by simp_all
  then have "\<bar>P + 2 * C + G\<bar> \<le> 2 * of_int max_t" by simp
  moreover have "1 / 2 + 1 / 2 ^ 21 \<le> (501 / 1000 :: rat)" by simp
  with ed have "\<bar>of_int d - of_int max_d * d_frac\<bar> \<le> 501 / 1000"
    by (rule order_trans)
  ultimately have b2: "\<bar>(of_int d - of_int max_d * d_frac) * (P + 2 * C + G)\<bar>
      \<le> 501 / 1000 * (2 * of_int max_t)"
    by (intro bounded_product)
  have "\<bar>of_int (area2 s' - 2 * avg_d * max_t) :: rat\<bar> \<le>
      501 / 1000 * (2 * of_int max_t) + of_int max_d * (2505 / 1000)"
    unfolding area using b1 b2 by linarith
  also have "\<dots> \<le> of_int (3 * max_d + 2 * max_t)" using D M by simp
  finally have "(of_int \<bar>area2 s' - 2 * avg_d * max_t\<bar> :: rat) \<le> of_int (3 * max_d + 2 * max_t)"
    by simp
  then show ?thesis by (simp only: of_int_le_iff)
qed

lemma sanitize_in_range:
  assumes "0 < max_d" and "avg_d \<noteq> 0" and "max_d div 10 \<le> avg_d" and "avg_d < max_d"
  shows "sanitize_avg_d max_d avg_d = Some avg_d"
  using assms by (simp add: sanitize_avg_d_def cdiv_nonneg)

subsection \<open>Profiles of the average-depth branch\<close>

lemma valid_six:
  assumes "0 \<le> t1" "t1 \<le> t2" "t2 \<le> t3" "t3 \<le> t4" "t4 \<le> duration_seconds dc"
    and "d \<le> maxdepth_mm dc"
  shows "valid_profile (dc\<lparr>samples := 6, last_manual_time := duration_seconds dc,
     sample := [point 0 0, point t1 (maxdepth_mm dc), point t2 (maxdepth_mm dc), point t3 d,
                point t4 d, point (duration_seconds dc) 0]\<rparr>)"
  using assms by (simp add: valid_profile_def point_def)

lemma valid_skeleton:
  assumes "0 \<le> duration_seconds dc" and "0 \<le> maxdepth_mm dc"
  shows "valid_profile (dc\<lparr>samples := 6, last_manual_time := duration_seconds dc,
     sample := skeleton (duration_seconds dc)\<rparr>)"
  using assms by (simp add: valid_profile_def skeleton_eq point_def)

lemma sanitize_range:
  assumes "0 < max_d" and "max_d \<le> 2 ^ 29" and "avg_d \<noteq> 0"
  shows "\<exists>a. sanitize_avg_d max_d avg_d = Some a \<and> 0 < a \<and> a \<le> max_d"
proof -
  have D: "max_d \<le> 536870912" using assms by simp
  have a: "to_int (max_d + 10000) = Some (max_d + 10000)"
    using assms D by (intro to_int_Some) (simp_all add: INT_MIN_def INT_MAX_def)
  have m: "to_int (max_d * 2) = Some (max_d * 2)"
    using assms D by (intro to_int_Some) (simp_all add: INT_MIN_def INT_MAX_def)
  have d10: "cdiv max_d 10 = max_d div 10" and d3: "cdiv (max_d + 10000) 3 = (max_d + 10000) div 3"
    and d23: "cdiv (max_d * 2) 3 = max_d * 2 div 3"
    using assms by (simp_all add: cdiv_nonneg)
  have "0 < (max_d + 10000) div 3" and "0 \<le> max_d * 2 div 3" and "max_d * 2 div 3 \<le> max_d"
    and "0 \<le> max_d div 10"
    using assms by simp_all
  then show ?thesis
    using assms by (auto simp add: sanitize_avg_d_def a m d10 d3 d23 Let_def)
qed

lemma attempt_outcome:
  assumes D: "0 < maxdepth_mm dc" "maxdepth_mm dc \<le> 2 ^ 29"
    and A: "0 < avg_d" "avg_d \<le> maxdepth_mm dc"
    and M: "0 < duration_seconds dc" "duration_seconds dc \<le> 2 ^ 29"
    and S: "1 \<le> slope" and F: "0 < d_frac" "d_frac \<le> 1 / 2"
  shows "\<exists>b s'. fill_samples (skeleton (duration_seconds dc)) (maxdepth_mm dc) avg_d
        (duration_seconds dc) slope d_frac = Some (b, s') \<and>
      valid_profile (dc\<lparr>samples := 6, last_manual_time := duration_seconds dc, sample := s'\<rparr>)"
proof -
  define max_d where "max_d = maxdepth_mm dc"
  define max_t where "max_t = duration_seconds dc"
  define T where "T = dbl (of_int max_t * dbl (1 - dbl (of_int avg_d / of_int max_d)))"
  define t1 where "t1 = rne (dbl (of_int max_d / slope))"
  define t4 where "t4 = rne (dbl (of_int max_t - dbl (of_int t1 * d_frac)))"
  define t3 where
    "t3 = rne (dbl (of_int t4 - dbl (dbl (T - of_int t1) / dbl (1 - d_frac))))"
  define t2 where "t2 = rne (dbl (of_int t3 - dbl (of_int t1 * dbl (1 - d_frac))))"
  define d where "d = rne (dbl (of_int max_d * d_frac))"
  note defs = max_d_def [symmetric] max_t_def [symmetric]
  have D': "max_d \<le> 536870912" using D unfolding defs by simp
  have "of_int 0 \<le> dbl (of_int max_d * d_frac)" and "dbl (of_int max_d * d_frac) \<le> of_int max_d"
    using dbl_between [OF frac_of_nonneg [of max_d d_frac]] D D' F unfolding defs by simp_all
  then have d: "0 \<le> d" "d \<le> max_d"
    unfolding d_def by (rule rne_between)+
  have tot: "fill_samples (skeleton max_t) max_d avg_d max_t slope d_frac =
      Some (spec_fill_samples lrint dbl (skeleton max_t) max_d avg_d max_t slope d_frac)"
    using D A M S F unfolding defs by (intro fill_samples_total)
  have spec: "spec_fill_samples lrint dbl (skeleton max_t) max_d avg_d max_t slope d_frac =
      (if 0 \<le> t1 \<and> t1 \<le> t2 \<and> t2 \<le> t3 \<and> t3 \<le> t4 \<and> t4 \<le> max_t
       then (True, [point 0 0, point t1 max_d, point t2 max_d, point t3 d, point t4 d,
                    point max_t 0])
       else (False, skeleton max_t))"
    unfolding spec_fill_samples_def lrint_def Let_def T_def [symmetric] t1_def [symmetric]
      t4_def [symmetric] t3_def [symmetric] t2_def [symmetric] put_skeleton
    by (simp add: d_def mult.commute)
  show ?thesis
  proof (cases "0 \<le> t1 \<and> t1 \<le> t2 \<and> t2 \<le> t3 \<and> t3 \<le> t4 \<and> t4 \<le> max_t")
    case True
    then have "valid_profile (dc\<lparr>samples := 6, last_manual_time := duration_seconds dc,
        sample := [point 0 0, point t1 (maxdepth_mm dc), point t2 (maxdepth_mm dc), point t3 d,
          point t4 d, point (duration_seconds dc) 0]\<rparr>)"
      using d unfolding max_d_def max_t_def by (intro valid_six) simp_all
    then show ?thesis
      using True unfolding defs by (auto simp add: tot spec)
  next
    case False
    have "valid_profile (dc\<lparr>samples := 6, last_manual_time := duration_seconds dc,
        sample := skeleton (duration_seconds dc)\<rparr>)"
      using D M by (intro valid_skeleton) simp_all
    then show ?thesis
      using False unfolding defs by (auto simp add: tot spec)
  qed
qed

subsection \<open>Device identity\<close>

lemma match_id_serial_kept:
  "serial dc = Some x \<Longrightarrow> serial (match_id dc m i n s fw) = Some x"
  by (simp add: match_id_def Let_def)

lemma match_id_fw_version_kept:
  "fw_version dc = Some x \<Longrightarrow> fw_version (match_id dc m i n s fw) = Some x"
  by (simp add: match_id_def Let_def)

lemma call_for_each_dc_serial_kept:
  "serial dc = Some x \<Longrightarrow> serial (call_for_each_dc dc match_id b entries) = Some x"
proof (induction entries arbitrary: dc)
  case Nil
  then show ?case by (simp add: call_for_each_dc_def)
next
  case (Cons e entries)
  obtain m i n s fw where e: "e = (m, i, n, s, fw)"
    by (cases e) auto
  have "serial (match_id dc m i n s fw) = Some x"
    using Cons.prems by (rule match_id_serial_kept)
  then have "serial (call_for_each_dc (match_id dc m i n s fw) match_id b entries) = Some x"
    by (rule Cons.IH)
  then show ?case by (simp add: call_for_each_dc_def e)
qed

lemma call_for_each_dc_fw_version_kept:
  "fw_version dc = Some x \<Longrightarrow> fw_version (call_for_each_dc dc match_id b entries) = Some x"
proof (induction entries arbitrary: dc)
  case Nil
  then show ?case by (simp add: call_for_each_dc_def)
next
  case (Cons e entries)
  obtain m i n s fw where e: "e = (m, i, n, s, fw)"
    by (cases e) auto
  have "fw_version (match_id dc m i n s fw) = Some x"
    using Cons.prems by (rule match_id_fw_version_kept)
  then have "fw_version (call_for_each_dc (match_id dc m i n s fw) match_id b entries) = Some x"
    by (rule Cons.IH)
  then show ?case by (simp add: call_for_each_dc_def e)
qed

section \<open>The invariants of a produced sequence: claim C1\<close>

text \<open>
  C1. The property: whenever the duration and the maximum depth are nonzero and the count
  is nonzero, the counted samples have non-decreasing times, start at time 0 and depth 0,
  end at the duration and depth 0, and are no deeper than the maximum depth in between
  (\<open>valid_profile\<close>). The branch without an average depth breaks it, since it stores its
  times unchecked. For maximum depth 30000 and duration 600 (deep and long) the descent
  ends at 300 and the bottom phase at \<open>600 - 300 - 180 = 120\<close>; for maximum depth 29950 and
  duration 599 (short) the descent time 299.5 is rounded to 300 and the ascent starts at
  \<open>599 - 300 = 299\<close>. In both results sample 2 is earlier than sample 1. The header comment
  of the source requires \<open>0 \<le> t1 \<le> t2 \<le> t3 \<le> t4 \<le> max_t\<close>, and \<^verbatim>\<open>fill_samples\<close> checks it.
\<close>

theorem no_avg_time_goes_back:
  "fake_dc \<lparr>duration_seconds = 600, maxdepth_mm = 30000, meandepth_mm = 0,
      last_manual_time = 0, samples = 0, sample = [], deviceid = 0, model = None,
      serial = None, fw_version = None\<rparr> =
   Some \<lparr>duration_seconds = 600, maxdepth_mm = 30000, meandepth_mm = 0,
      last_manual_time = 600, samples = 6,
      sample = [point 0 0, point 300 30000, point 120 30000, point 370 5000,
                point 550 5000, point 600 0],
      deviceid = 0, model = None, serial = None, fw_version = None\<rparr> \<and>
   \<not> valid_profile \<lparr>duration_seconds = 600, maxdepth_mm = 30000, meandepth_mm = 0,
      last_manual_time = 600, samples = 6,
      sample = [point 0 0, point 300 30000, point 120 30000, point 370 5000,
                point 550 5000, point 600 0],
      deviceid = 0, model = None, serial = None, fw_version = None\<rparr> \<and>
   fake_dc \<lparr>duration_seconds = 599, maxdepth_mm = 29950, meandepth_mm = 0,
      last_manual_time = 0, samples = 0, sample = [], deviceid = 0, model = None,
      serial = None, fw_version = None\<rparr> =
   Some \<lparr>duration_seconds = 599, maxdepth_mm = 29950, meandepth_mm = 0,
      last_manual_time = 599, samples = 4,
      sample = [point 0 0, point 300 29950, point 299 29950, point 599 0, point 0 0,
                point 599 0],
      deviceid = 0, model = None, serial = None, fw_version = None\<rparr> \<and>
   \<not> valid_profile \<lparr>duration_seconds = 599, maxdepth_mm = 29950, meandepth_mm = 0,
      last_manual_time = 599, samples = 4,
      sample = [point 0 0, point 300 29950, point 299 29950, point 599 0, point 0 0,
                point 599 0],
      deviceid = 0, model = None, serial = None, fw_version = None\<rparr>"
  by (simp add: no_avg_examples valid_profile_def point_def)

text \<open>
  In the average-depth branch the invariants hold, whichever attempt is accepted and also
  when all three are rejected: for every nonzero average depth,
  \<open>0 < max_depth \<le> 2\<^sup>2\<^sup>9\<close> and \<open>0 < max_time \<le> 2\<^sup>2\<^sup>9\<close>, \<^verbatim>\<open>fake_dc\<close> returns six samples
  that form a valid profile.
\<close>

theorem avg_branch_valid_profile:
  assumes D: "0 < maxdepth_mm dc" "maxdepth_mm dc \<le> 2 ^ 29"
    and M: "0 < duration_seconds dc" "duration_seconds dc \<le> 2 ^ 29"
    and A: "meandepth_mm dc \<noteq> 0"
  shows "\<exists>dc'. fake_dc dc = Some dc' \<and> samples dc' = 6 \<and> valid_profile dc'"
proof -
  from sanitize_range [OF D A] obtain a
    where san: "sanitize_avg_d (maxdepth_mm dc) (meandepth_mm dc) = Some a"
      and a: "0 < a" "a \<le> maxdepth_mm dc"
    by blast
  note par = attempt_parameters [THEN conjunct1]
  obtain b1 s1 where r1: "fill_samples (skeleton (duration_seconds dc)) (maxdepth_mm dc) a
        (duration_seconds dc) (ddiv 5000 60) (dbl (33 / 100)) = Some (b1, s1)"
      and v1: "valid_profile (dc\<lparr>samples := 6, last_manual_time := duration_seconds dc,
        sample := s1\<rparr>)"
    using attempt_outcome [OF D a M, of "ddiv 5000 60" "dbl (33 / 100)"] attempt_parameters
    by auto
  obtain b2 s2 where r2: "fill_samples (skeleton (duration_seconds dc)) (maxdepth_mm dc) a
        (duration_seconds dc) (ddiv 10000 60) (dbl (1 / 10)) = Some (b2, s2)"
      and v2: "valid_profile (dc\<lparr>samples := 6, last_manual_time := duration_seconds dc,
        sample := s2\<rparr>)"
    using attempt_outcome [OF D a M, of "ddiv 10000 60" "dbl (1 / 10)"] attempt_parameters
    by auto
  obtain b3 s3 where r3: "fill_samples (skeleton (duration_seconds dc)) (maxdepth_mm dc) a
        (duration_seconds dc) 10000 (dbl (1 / 100)) = Some (b3, s3)"
      and v3: "valid_profile (dc\<lparr>samples := 6, last_manual_time := duration_seconds dc,
        sample := s3\<rparr>)"
    using attempt_outcome [OF D a M, of 10000 "dbl (1 / 100)"] attempt_parameters
    by auto
  show ?thesis
    using D M A v1 v2 v3 by (simp add: fake_dc_unfold Let_def san r1 r2 r3)
qed

theorem avg_branch_valid_profile_witness:
  "\<exists>dc'. fake_dc \<lparr>duration_seconds = 3000, maxdepth_mm = 18000, meandepth_mm = 9000,
      last_manual_time = 0, samples = 0, sample = [], deviceid = 0, model = None,
      serial = None, fw_version = None\<rparr> = Some dc' \<and> samples dc' = 6 \<and> valid_profile dc'"
  using avg_branch_valid_profile [of "\<lparr>duration_seconds = 3000, maxdepth_mm = 18000,
      meandepth_mm = 9000, last_manual_time = 0, samples = 0, sample = [], deviceid = 0,
      model = None, serial = None, fw_version = None\<rparr>"]
  by simp

section \<open>The area of an accepted profile: claim C2\<close>

text \<open>
  C2. The claim has the trapezoidal area of a profile accepted at attempt 1 or 2 within a
  few mm*s of \<open>avg_depth * max_time\<close>. Each breakpoint time is rounded to a whole second
  and multiplies a depth of the order of \<open>max_depth\<close>, so the deviation is of that order:
  for maximum depth 18000, average depth 9000 and duration 3000 the area is 27007560,
  which is 7560 beyond 27000000. What holds, for an average depth in
  \<open>[max_depth/10, max_depth)\<close>, \<open>0 < max_depth \<le> 2\<^sup>2\<^sup>9\<close> and \<open>0 < max_time \<le> 2\<^sup>2\<^sup>9\<close>: when
  attempt 1 or attempt 2 is accepted, \<^verbatim>\<open>fake_dc\<close> returns six samples whose area differs
  from \<open>avg_depth * max_time\<close> by at most \<open>1.5 * max_depth + max_time\<close>. The theorem states
  it for twice the area, an integer.
\<close>

theorem accepted_profile_area:
  assumes D: "0 < maxdepth_mm dc" "maxdepth_mm dc \<le> 2 ^ 29"
    and M: "0 < duration_seconds dc" "duration_seconds dc \<le> 2 ^ 29"
    and A: "meandepth_mm dc \<noteq> 0" "maxdepth_mm dc div 10 \<le> meandepth_mm dc"
      "meandepth_mm dc < maxdepth_mm dc"
    and acc: "attempt dc (ddiv 5000 60) (dbl (33 / 100)) = Some True \<or>
      attempt dc (ddiv 10000 60) (dbl (1 / 10)) = Some True"
  shows "\<exists>dc'. fake_dc dc = Some dc' \<and> samples dc' = 6 \<and>
      \<bar>area2 (sample dc') - 2 * meandepth_mm dc * duration_seconds dc\<bar>
        \<le> 3 * maxdepth_mm dc + 2 * duration_seconds dc"
proof -
  define max_d where "max_d = maxdepth_mm dc"
  define max_t where "max_t = duration_seconds dc"
  define avg_d where "avg_d = meandepth_mm dc"
  note defs = max_d_def [symmetric] max_t_def [symmetric] avg_d_def [symmetric]
  have A': "0 < avg_d" "avg_d \<le> max_d" using A D unfolding defs by linarith+
  have san: "sanitize_avg_d max_d avg_d = Some avg_d"
    using D A unfolding defs by (intro sanitize_in_range)
  obtain b1 s1 where r1: "fill_samples (skeleton max_t) max_d avg_d max_t (ddiv 5000 60)
      (dbl (33 / 100)) = Some (b1, s1)"
    using fill_samples_total [of max_d avg_d max_t "ddiv 5000 60" "dbl (33 / 100)"
        "skeleton max_t"] D M A' attempt_parameters
    unfolding defs by (cases "spec_fill_samples lrint dbl (skeleton max_t) max_d avg_d max_t
        (ddiv 5000 60) (dbl (33 / 100))") simp
  have a1: "attempt dc (ddiv 5000 60) (dbl (33 / 100)) = Some b1"
    unfolding attempt_def defs by (simp add: san r1)
  have unfold: "fake_dc dc =
      (if b1 then Some (dc\<lparr>samples := 6, last_manual_time := max_t, sample := s1\<rparr>)
       else fill_samples (skeleton max_t) max_d avg_d max_t (ddiv 10000 60) (dbl (1 / 10)) \<bind>
         (\<lambda>r2. if fst r2
            then Some (dc\<lparr>samples := 6, last_manual_time := max_t, sample := snd r2\<rparr>)
            else fill_samples (skeleton max_t) max_d avg_d max_t 10000 (dbl (1 / 100)) \<bind>
              (\<lambda>r3. Some (dc\<lparr>samples := 6, last_manual_time := max_t, sample := snd r3\<rparr>))))"
    using D M A unfolding fake_dc_unfold Let_def defs by (simp add: san r1)
  show ?thesis
  proof (cases b1)
    case True
    have "\<bar>area2 s1 - 2 * avg_d * max_t\<bar> \<le> 3 * max_d + 2 * max_t"
      using D M A' attempt_parameters r1 True unfolding defs by (intro accepted_area) simp_all
    then show ?thesis using True unfold by (simp add: defs)
  next
    case False
    with acc a1 have "attempt dc (ddiv 10000 60) (dbl (1 / 10)) = Some True" by simp
    then obtain s2 where r2: "fill_samples (skeleton max_t) max_d avg_d max_t (ddiv 10000 60)
        (dbl (1 / 10)) = Some (True, s2)"
      unfolding attempt_def defs by (auto simp add: san split: Option.bind_splits)
    have "\<bar>area2 s2 - 2 * avg_d * max_t\<bar> \<le> 3 * max_d + 2 * max_t"
      using D M A' attempt_parameters r2 unfolding defs by (intro accepted_area) simp_all
    then show ?thesis using False unfold r2 by (simp add: defs)
  qed
qed

theorem accepted_profile_area_witness:
  "attempt \<lparr>duration_seconds = 3000, maxdepth_mm = 18000, meandepth_mm = 9000,
      last_manual_time = 0, samples = 0, sample = [], deviceid = 0, model = None,
      serial = None, fw_version = None\<rparr> (ddiv 5000 60) (dbl (33 / 100)) = Some True \<and>
   (\<exists>dc'. fake_dc \<lparr>duration_seconds = 3000, maxdepth_mm = 18000, meandepth_mm = 9000,
      last_manual_time = 0, samples = 0, sample = [], deviceid = 0, model = None,
      serial = None, fw_version = None\<rparr> = Some dc' \<and> samples dc' = 6 \<and>
      \<bar>area2 (sample dc') - 2 * 9000 * 3000\<bar> \<le> 3 * 18000 + 2 * 3000)"
  using accepted_profile_area [of "\<lparr>duration_seconds = 3000, maxdepth_mm = 18000,
      meandepth_mm = 9000, last_manual_time = 0, samples = 0, sample = [], deviceid = 0,
      model = None, serial = None, fw_version = None\<rparr>"] area_example
  by simp

theorem area_tolerance_counterexample:
  "attempt \<lparr>duration_seconds = 3000, maxdepth_mm = 18000, meandepth_mm = 9000,
      last_manual_time = 0, samples = 0, sample = [], deviceid = 0, model = None,
      serial = None, fw_version = None\<rparr> (ddiv 5000 60) (dbl (33 / 100)) = Some True \<and>
   map_option (area2 \<circ> sample)
     (fake_dc \<lparr>duration_seconds = 3000, maxdepth_mm = 18000, meandepth_mm = 9000,
      last_manual_time = 0, samples = 0, sample = [], deviceid = 0, model = None,
      serial = None, fw_version = None\<rparr>) = Some (2 * (9000 * 3000) + 2 * 7560)"
  by (simp add: area_example point_def)

section \<open>The single-attempt solver: claim C3\<close>

text \<open>
  C3. The claim has the four times and the plateau depth rounded half away from zero from
  the real-valued solutions. The code rounds with \<^verbatim>\<open>lrint\<close>, to nearest with ties to even,
  and computes in doubles. With maximum depth 5000 and slope 10000 the descent time is
  \<open>lrint(0.5) = 0\<close>, not 1, and the points written differ from those of the claim. What
  holds, for \<open>0 < max_depth \<le> 2\<^sup>2\<^sup>9\<close>, \<open>0 < avg_depth \<le> max_depth\<close>,
  \<open>0 < max_time \<le> 2\<^sup>2\<^sup>9\<close>, \<open>slope \<ge> 1\<close> and \<open>0 < d_frac \<le> 1/2\<close> (the three calls of
  \<^verbatim>\<open>fake_dc\<close> are of this kind): every stored value fits an \<^verbatim>\<open>int\<close>, and the call computes
  the closed form with each arithmetic result rounded to a double and each time and the
  plateau depth rounded by \<^verbatim>\<open>lrint\<close>; it accepts exactly when
  \<open>0 \<le> t1 \<le> t2 \<le> t3 \<le> t4 \<le> max_time\<close> on the rounded integers, then sets samples 1 to 4
  and leaves samples 0 and 5 as they are; on rejection it writes nothing.
\<close>

theorem fill_samples_closed_form:
  assumes "0 < max_d" and "max_d \<le> 2 ^ 29"
    and "0 < avg_d" and "avg_d \<le> max_d"
    and "0 < max_t" and "max_t \<le> 2 ^ 29"
    and "1 \<le> slope" and "0 < d_frac" and "d_frac \<le> 1 / 2"
  shows "fill_samples s max_d avg_d max_t slope d_frac =
     Some (spec_fill_samples lrint dbl s max_d avg_d max_t slope d_frac)"
  using assms by (rule fill_samples_total)

theorem fill_samples_closed_form_witness:
  "1 \<le> ddiv 5000 60 \<and> 0 < dbl (33 / 100) \<and> dbl (33 / 100) \<le> 1 / 2 \<and>
   fill_samples (skeleton 3000) 18000 9000 3000 (ddiv 5000 60) (dbl (33 / 100)) =
   Some (True, [point 0 0, point 216 18000, point 868 18000, point 1013 5940,
                point 2929 5940, point 3000 0])"
  using fill_samples_closed_form [of 18000 9000 3000 "ddiv 5000 60" "dbl (33 / 100)"
      "skeleton 3000"] attempt_parameters closed_form_example
  by simp

theorem fill_samples_half_away_counterexample:
  "fill_samples (skeleton 20) 5000 2500 20 10000 (dbl (1 / 100)) \<noteq>
   Some (spec_fill_samples round_half_away id (skeleton 20) 5000 2500 20 10000
     (dbl (1 / 100)))"
  by (simp add: half_away_code half_away_spec point_def)

section \<open>No average depth, shallow and short: claim C4\<close>

text \<open>
  C4. For average depth 0, maximum depth 8000 and duration 500 the claim has the count
  stay 6. The code reports 4: the shallow case leaves sample 3 at time 0, which the caller
  takes for a four-point profile, moving sample 3 to the duration. Samples 1 and 2 are the
  only ones with a nonzero depth.
\<close>

theorem shallow_short_profile:
  "fake_dc (dc\<lparr>duration_seconds := 500, maxdepth_mm := 8000, meandepth_mm := 0\<rparr>) =
   Some (dc\<lparr>duration_seconds := 500, maxdepth_mm := 8000, meandepth_mm := 0,
     samples := 4, last_manual_time := 500,
     sample := [point 0 0, point 96 8000, point 404 8000, point 500 0, point 0 0,
                point 500 0]\<rparr>)"
  by (simp add: fake_dc_unfold shallow_short_example set_time_def point_def)

theorem shallow_short_counterexample:
  "map_option samples (fake_dc \<lparr>duration_seconds = 500, maxdepth_mm = 8000,
      meandepth_mm = 0, last_manual_time = 0, samples = 0, sample = [], deviceid = 0,
      model = None, serial = None, fw_version = None\<rparr>) \<noteq> Some 6"
  by (simp add: fake_dc_unfold shallow_short_example point_def)

section \<open>No average depth, deep and long: claim C5\<close>

text \<open>
  C5. The claim has sample 1 at \<open>round(max_depth / slope)\<close> with
  \<open>slope = max(2 * max_depth / max_time, 5000/60)\<close>. The code computes slope and quotient in
  doubles and rounds with \<^verbatim>\<open>lrint\<close>, and that is not a rounding of the real quotient. For
  duration 3600 and maximum depth 10375 the real quotient is 124.5; the code stores 124,
  rounding half away from zero gives 125. For duration 3600 and maximum depth 20875 the
  real quotient is 250.5, the double quotient lies just above it and the code stores 251,
  where a tie to even on the real quotient gives 250. What holds, for average depth 0, a
  maximum depth of at least 10000 and a duration of at least 600 (both within \<^verbatim>\<open>int\<close>):
  \<^verbatim>\<open>fake_dc\<close> returns a six-point profile; its slope is the double nearest to
  \<open>max(2 * max_depth / max_time, 5000/60)\<close>; sample 1 is at the maximum depth and at
  \<^verbatim>\<open>lrint\<close> of the double quotient \<open>max_depth / slope\<close>; samples 3 and 4 are at depth 5000,
  exactly 180 seconds apart, and sample 4 is at the duration less \<^verbatim>\<open>lrint\<close> of the double
  quotient \<open>5000 / slope\<close>; sample 5 is at the duration and depth 0.
\<close>

theorem deep_long_profile:
  assumes "meandepth_mm dc = 0"
    and "10000 \<le> maxdepth_mm dc" and "maxdepth_mm dc \<le> INT_MAX"
    and "600 \<le> duration_seconds dc" and "duration_seconds dc \<le> INT_MAX"
  shows
    "let max_d = maxdepth_mm dc; max_t = duration_seconds dc;
         t1 = spec_descent_time lrint dbl max_d max_t;
         t5 = spec_stop_ascent_time lrint dbl max_d max_t
     in fake_dc dc = Some (dc\<lparr>samples := 6, last_manual_time := max_t,
          sample := [point 0 0, point t1 max_d, point (max_t - t1 - 180) max_d,
            point (max_t - t5 - 180) 5000, point (max_t - t5) 5000, point max_t 0]\<rparr>) \<and>
        time_seconds (point (max_t - t5) 5000) - time_seconds (point (max_t - t5 - 180) 5000) = 180"
proof -
  define max_d where "max_d = maxdepth_mm dc"
  define max_t where "max_t = duration_seconds dc"
  define slope where "slope = dbl (max (2 * of_int max_d / of_int max_t) (5000 / 60))"
  define t1 where "t1 = lrint (dbl (of_int max_d / slope))"
  define t5 where "t5 = lrint (dbl (5000 / slope))"
  have D: "10000 \<le> max_d" "max_d \<le> 2147483647" and M: "600 \<le> max_t" "max_t \<le> 2147483647"
    using assms by (simp_all add: max_d_def max_t_def INT_MAX_def)
  have sl: "MAX_dbl (ddiv (dmul 2 (of_int max_d)) (of_int max_t)) (ddiv 5000 60) = slope"
    unfolding slope_def using D by (intro no_avg_slope) simp
  have s83: "83 \<le> slope" unfolding slope_def by (rule no_avg_slope_ge)
  have x0: "of_int 0 \<le> of_int max_d / slope" using D s83 by simp
  have "of_int max_d / slope \<le> of_int max_d / 1"
    using D s83 by (intro divide_left_mono) simp_all
  then have x1: "of_int max_d / slope \<le> of_int max_d" by simp
  have t1: "0 \<le> t1" "t1 \<le> max_d"
    unfolding t1_def using lrint_range [OF x0 x1] D by simp_all
  have y0: "of_int 0 \<le> 5000 / slope" using s83 by simp
  have "5000 / slope \<le> 5000 / 83"
    using s83 by (intro divide_left_mono) simp_all
  then have y1: "5000 / slope \<le> of_int 61" by simp
  have t5: "0 \<le> t5" "t5 \<le> 61"
    unfolding t5_def using lrint_range [OF y0 y1] by simp_all
  have c1: "to_int t1 = Some t1" using t1 D by (simp add: to_int_def INT_MIN_def INT_MAX_def)
  have c2: "to_int (max_t - t1 - 180) = Some (max_t - t1 - 180)"
    using t1 D M by (simp add: to_int_def INT_MIN_def INT_MAX_def)
  have c3: "to_int (max_t - t5 - 180) = Some (max_t - t5 - 180)"
    using t5 M by (simp add: to_int_def INT_MIN_def INT_MAX_def)
  have c4: "to_int (max_t - t5) = Some (max_t - t5)"
    using t5 M by (simp add: to_int_def INT_MIN_def INT_MAX_def)
  have fill: "fill_samples_no_avg (skeleton max_t) max_d max_t slope =
      Some [point 0 0, point t1 max_d, point (max_t - t1 - 180) max_d,
            point (max_t - t5 - 180) 5000, point (max_t - t5) 5000, point max_t 0]"
    using D M c1 c2 c3 c4
    by (simp add: fill_samples_no_avg_def ddiv_def t1_def [symmetric] t5_def [symmetric]
        skeleton_eq set_time_def set_depth_def point_def)
  have nz: "max_t - t5 - 180 \<noteq> 0" using t5 M by simp
  have "fake_dc dc = Some (dc\<lparr>samples := 6, last_manual_time := max_t,
          sample := [point 0 0, point t1 max_d, point (max_t - t1 - 180) max_d,
            point (max_t - t5 - 180) 5000, point (max_t - t5) 5000, point max_t 0]\<rparr>)"
    using assms(1) D M nz
    by (simp add: fake_dc_unfold Let_def max_d_def [symmetric] max_t_def [symmetric] sl fill
        point_def)
  then show ?thesis
    by (simp add: Let_def max_d_def max_t_def slope_def t1_def t5_def point_def
        spec_descent_time_def spec_stop_ascent_time_def spec_slope_def)
qed

theorem deep_long_profile_witness:
  "fake_dc \<lparr>duration_seconds = 1800, maxdepth_mm = 30000, meandepth_mm = 0,
      last_manual_time = 0, samples = 0, sample = [], deviceid = 0, model = None,
      serial = None, fw_version = None\<rparr> =
   Some \<lparr>duration_seconds = 1800, maxdepth_mm = 30000, meandepth_mm = 0,
      last_manual_time = 1800, samples = 6,
      sample = [point 0 0, point 360 30000, point 1260 30000, point 1560 5000,
                point 1740 5000, point 1800 0],
      deviceid = 0, model = None, serial = None, fw_version = None\<rparr>"
  using deep_long_profile [of "\<lparr>duration_seconds = 1800, maxdepth_mm = 30000,
      meandepth_mm = 0, last_manual_time = 0, samples = 0, sample = [], deviceid = 0,
      model = None, serial = None, fw_version = None\<rparr>"] deep_long_example_values
  by (simp add: INT_MAX_def Let_def spec_descent_time_def spec_stop_ascent_time_def
      spec_slope_def)

theorem deep_long_rounding_counterexample:
  "map_option (time_seconds \<circ> hd \<circ> tl \<circ> sample)
     (fake_dc \<lparr>duration_seconds = 3600, maxdepth_mm = 10375, meandepth_mm = 0,
        last_manual_time = 0, samples = 0, sample = [], deviceid = 0, model = None,
        serial = None, fw_version = None\<rparr>) \<noteq>
   Some (spec_descent_time round_half_away id 10375 3600) \<and>
   map_option (time_seconds \<circ> hd \<circ> tl \<circ> sample)
     (fake_dc \<lparr>duration_seconds = 3600, maxdepth_mm = 20875, meandepth_mm = 0,
        last_manual_time = 0, samples = 0, sample = [], deviceid = 0, model = None,
        serial = None, fw_version = None\<rparr>) \<noteq>
   Some (spec_descent_time rne id 20875 3600)"
  by (simp add: deep_long_rounding_examples)

section \<open>No data: claim C6\<close>

text \<open>
  C6. When the duration or the maximum depth is zero, \<^verbatim>\<open>fake_dc\<close> returns with the sample
  count 0 and the sample array equal to the skeleton; every other field of the record,
  \<open>last_manual_time\<close> among them, is as before the call.
\<close>

theorem fake_dc_no_data:
  "duration_seconds dc = 0 \<or> maxdepth_mm dc = 0 \<Longrightarrow>
   fake_dc dc = Some (dc\<lparr>samples := 0, sample := skeleton (duration_seconds dc)\<rparr>) \<and>
   last_manual_time (dc\<lparr>samples := 0, sample := skeleton (duration_seconds dc)\<rparr>) =
     last_manual_time dc"
  by (simp add: fake_dc_unfold Let_def)

theorem fake_dc_no_data_witness:
  "maxdepth_mm \<lparr>duration_seconds = 1800, maxdepth_mm = 0, meandepth_mm = 9000,
      last_manual_time = 7, samples = 9, sample = [], deviceid = 0, model = None,
      serial = None, fw_version = None\<rparr> = 0 \<and>
   fake_dc \<lparr>duration_seconds = 1800, maxdepth_mm = 0, meandepth_mm = 9000,
      last_manual_time = 7, samples = 9, sample = [], deviceid = 0, model = None,
      serial = None, fw_version = None\<rparr> =
   Some \<lparr>duration_seconds = 1800, maxdepth_mm = 0, meandepth_mm = 9000,
      last_manual_time = 7, samples = 0,
      sample = [point 0 0, point 0 0, point 0 0, point 0 0, point 0 0, point 1800 0],
      deviceid = 0, model = None, serial = None, fw_version = None\<rparr>"
  using fake_dc_no_data [of "\<lparr>duration_seconds = 1800, maxdepth_mm = 0, meandepth_mm = 9000,
      last_manual_time = 7, samples = 9, sample = [], deviceid = 0, model = None,
      serial = None, fw_version = None\<rparr>"]
  by (simp add: skeleton_eq)

section \<open>Sanitizing the average depth: claim C7\<close>

text \<open>
  C7. The claim has an average depth outside \<open>[max_depth/10, max_depth)\<close> replaced by
  \<open>(max_depth + 10000)/3\<close> capped at \<open>2*max_depth/3\<close>. The code does not take the smaller of
  the two: it keeps \<open>(max_depth + 10000)/3\<close> unless that exceeds \<open>max_depth\<close> (which is the
  case exactly for \<open>max_depth < 4999\<close>), and only then takes \<open>2*max_depth/3\<close>. With maximum
  depth 6000 and average depth 6000 the code continues with 5333, the capped default
  would be 4000. What holds, for a positive maximum depth that leaves \<open>max_depth + 10000\<close>
  an \<^verbatim>\<open>int\<close>, and divisions as in C: an average depth in range is used unchanged; out of
  range it becomes \<open>(max_depth + 10000)/3\<close> when that is at most \<open>max_depth\<close>, and
  \<open>2*max_depth/3\<close>, with zero clamped to 1, otherwise.
\<close>

theorem sanitize_avg_d_cases:
  assumes "0 < max_d" and "max_d + 10000 \<le> INT_MAX" and "avg_d \<noteq> 0"
  shows "(max_d div 10 \<le> avg_d \<and> avg_d < max_d \<longrightarrow> sanitize_avg_d max_d avg_d = Some avg_d) \<and>
    ((avg_d < max_d div 10 \<or> max_d \<le> avg_d) \<and> (max_d + 10000) div 3 \<le> max_d \<longrightarrow>
       sanitize_avg_d max_d avg_d = Some ((max_d + 10000) div 3)) \<and>
    ((avg_d < max_d div 10 \<or> max_d \<le> avg_d) \<and> max_d < (max_d + 10000) div 3 \<longrightarrow>
       sanitize_avg_d max_d avg_d = Some (max 1 (max_d * 2 div 3)))"
proof -
  have a: "to_int (max_d + 10000) = Some (max_d + 10000)"
    using assms by (intro to_int_Some) (simp_all add: INT_MIN_def)
  have m: "to_int (max_d * 2) = Some (max_d * 2)" if "max_d < (max_d + 10000) div 3"
    using assms that by (intro to_int_Some) (simp_all add: INT_MIN_def INT_MAX_def)
  have d10: "cdiv max_d 10 = max_d div 10"
    using assms by (simp add: cdiv_nonneg)
  have d3: "cdiv (max_d + 10000) 3 = (max_d + 10000) div 3"
    using assms by (simp add: cdiv_nonneg)
  have d23: "cdiv (max_d * 2) 3 = max_d * 2 div 3"
    using assms by (simp add: cdiv_nonneg)
  have pos: "0 < (max_d + 10000) div 3" and nn: "0 \<le> max_d * 2 div 3"
    using assms by simp_all
  show ?thesis
    using assms pos nn by (auto simp add: sanitize_avg_d_def a m d10 d3 d23 Let_def max_def)
qed

theorem sanitize_avg_d_cases_witness:
  "sanitize_avg_d 18000 9000 = Some 9000 \<and> sanitize_avg_d 6000 6000 = Some 5333 \<and>
   sanitize_avg_d 30000 100 = Some 13333 \<and> sanitize_avg_d 3000 3500 = Some 2000 \<and>
   sanitize_avg_d 1 5 = Some 1"
  using sanitize_avg_d_cases [of 18000 9000] sanitize_avg_d_cases [of 6000 6000]
    sanitize_avg_d_cases [of 30000 100] sanitize_avg_d_cases [of 3000 3500]
    sanitize_avg_d_cases [of 1 5]
  by (simp add: INT_MAX_def)

theorem sanitize_avg_d_counterexample:
  "sanitize_avg_d 6000 6000 \<noteq> Some (spec_sanitize 6000 6000)"
  by (simp add: sanitize_avg_d_def spec_sanitize_def to_int_def INT_MIN_def INT_MAX_def cdiv_def)

section \<open>All attempts rejected: claim C8\<close>

text \<open>
  C8. In the average-depth branch, when the three attempts (tried in the order of the
  source) are all rejected, \<^verbatim>\<open>fake_dc\<close> returns normally with the count 6, the skeleton
  as sample array (samples 0 to 4 at time 0 and depth 0, sample 5 at the duration, the
  sentinel \<open>-1\<close> in bearing and no-decompression limit of all six) and \<open>last_manual_time\<close>
  set to the duration.
\<close>

theorem fake_dc_all_rejected:
  assumes "duration_seconds dc \<noteq> 0" and "maxdepth_mm dc \<noteq> 0" and "meandepth_mm dc \<noteq> 0"
    and "attempt dc (ddiv 5000 60) (dbl (33 / 100)) = Some False"
    and "attempt dc (ddiv 10000 60) (dbl (1 / 10)) = Some False"
    and "attempt dc 10000 (dbl (1 / 100)) = Some False"
  shows "fake_dc dc =
     Some (dc\<lparr>samples := 6, last_manual_time := duration_seconds dc,
       sample := [point 0 0, point 0 0, point 0 0, point 0 0, point 0 0,
                  point (duration_seconds dc) 0]\<rparr>)"
proof -
  from assms(4) obtain a where a: "sanitize_avg_d (maxdepth_mm dc) (meandepth_mm dc) = Some a"
    by (auto simp add: attempt_def split: Option.bind_splits)
  have rej: "fill_samples (skeleton (duration_seconds dc)) (maxdepth_mm dc) a
       (duration_seconds dc) slope d_frac = Some (False, skeleton (duration_seconds dc))"
    if "attempt dc slope d_frac = Some False" for slope d_frac
  proof -
    from that a obtain s' where "fill_samples (skeleton (duration_seconds dc)) (maxdepth_mm dc) a
       (duration_seconds dc) slope d_frac = Some (False, s')"
      by (auto simp add: attempt_def split: Option.bind_splits)
    then show ?thesis
      using fill_samples_rejected by blast
  qed
  show ?thesis
    using assms(1-3) a rej [OF assms(4)] rej [OF assms(5)] rej [OF assms(6)]
    by (simp add: fake_dc_unfold Let_def skeleton_eq)
qed

theorem fake_dc_all_rejected_witness:
  "fake_dc \<lparr>duration_seconds = 1, maxdepth_mm = 100000, meandepth_mm = 50000,
      last_manual_time = 7, samples = 9, sample = [], deviceid = 0, model = None,
      serial = None, fw_version = None\<rparr> =
   Some \<lparr>duration_seconds = 1, maxdepth_mm = 100000, meandepth_mm = 50000,
      last_manual_time = 1, samples = 6,
      sample = [point 0 0, point 0 0, point 0 0, point 0 0, point 0 0, point 1 0],
      deviceid = 0, model = None, serial = None, fw_version = None\<rparr>"
  using fake_dc_all_rejected [of "\<lparr>duration_seconds = 1, maxdepth_mm = 100000,
      meandepth_mm = 50000, last_manual_time = 7, samples = 9, sample = [], deviceid = 0,
      model = None, serial = None, fw_version = None\<rparr>"] all_rejected_example
  by simp

section \<open>Device identity: claims C9 and C10\<close>

text \<open>
  C9. With device id 0, \<^verbatim>\<open>set_dc_deviceid\<close> returns the record as it was. For any device
  id and any source entries, a serial or firmware string that is already set survives the
  call unchanged, whatever the matching entries offer.
\<close>

theorem set_dc_deviceid_frame:
  "set_dc_deviceid dc 0 entries = dc \<and>
   (serial dc \<noteq> None \<longrightarrow> serial (set_dc_deviceid dc i entries) = serial dc) \<and>
   (fw_version dc \<noteq> None \<longrightarrow> fw_version (set_dc_deviceid dc i entries) = fw_version dc)"
proof (intro conjI impI)
  show "set_dc_deviceid dc 0 entries = dc"
    by (simp add: set_dc_deviceid_def)
next
  assume "serial dc \<noteq> None"
  then obtain x where x: "serial dc = Some x" by auto
  then have "serial (dc\<lparr>deviceid := i\<rparr>) = Some x" by simp
  then have "serial (call_for_each_dc (dc\<lparr>deviceid := i\<rparr>) match_id False entries) = Some x"
    by (rule call_for_each_dc_serial_kept)
  with x show "serial (set_dc_deviceid dc i entries) = serial dc"
    by (simp add: set_dc_deviceid_def)
next
  assume "fw_version dc \<noteq> None"
  then obtain x where x: "fw_version dc = Some x" by auto
  then have "fw_version (dc\<lparr>deviceid := i\<rparr>) = Some x" by simp
  then have "fw_version (call_for_each_dc (dc\<lparr>deviceid := i\<rparr>) match_id False entries) = Some x"
    by (rule call_for_each_dc_fw_version_kept)
  with x show "fw_version (set_dc_deviceid dc i entries) = fw_version dc"
    by (simp add: set_dc_deviceid_def)
qed

text \<open>
  The record below has a serial and no firmware; the entry matches it on device id and
  model and offers another serial and a firmware. The serial stays, the firmware is filled.
\<close>

theorem set_dc_deviceid_frame_witness:
  "serial (\<lparr>duration_seconds = 0, maxdepth_mm = 0, meandepth_mm = 0, last_manual_time = 0,
      samples = 0, sample = [], deviceid = 0, model = Some ''Vyper'', serial = Some ''S0'',
      fw_version = None\<rparr>) \<noteq> None \<and>
   serial (set_dc_deviceid
     \<lparr>duration_seconds = 0, maxdepth_mm = 0, meandepth_mm = 0, last_manual_time = 0,
      samples = 0, sample = [], deviceid = 0, model = Some ''Vyper'', serial = Some ''S0'',
      fw_version = None\<rparr> 5 [(Some ''Vyper'', 5, None, Some ''S1'', Some ''1.2'')]) = Some ''S0'' \<and>
   fw_version (set_dc_deviceid
     \<lparr>duration_seconds = 0, maxdepth_mm = 0, meandepth_mm = 0, last_manual_time = 0,
      samples = 0, sample = [], deviceid = 0, model = Some ''Vyper'', serial = Some ''S0'',
      fw_version = None\<rparr> 5 [(Some ''Vyper'', 5, None, Some ''S1'', Some ''1.2'')]) = Some ''1.2''"
  using set_dc_deviceid_frame [of
      "\<lparr>duration_seconds = 0, maxdepth_mm = 0, meandepth_mm = 0, last_manual_time = 0,
        samples = 0, sample = [], deviceid = 0, model = Some ''Vyper'', serial = Some ''S0'',
        fw_version = None\<rparr>"
      "[(Some ''Vyper'', 5, None, Some ''S1'', Some ''1.2'')]" 5]
  by (simp add: set_dc_deviceid_def call_for_each_dc_def match_id_def)

text \<open>
  C10. \<^verbatim>\<open>match_id\<close> changes the serial or the firmware of the record only if the device
  ids are equal and both model strings are present and equal. In particular, when the
  model of the record or of the entry is null, both fields stay as they were, equal device
  ids or not.
\<close>

theorem match_id_only_on_match:
  "(serial (match_id dc m i n s fw) \<noteq> serial dc \<or>
    fw_version (match_id dc m i n s fw) \<noteq> fw_version dc \<longrightarrow>
      deviceid dc = i \<and> m \<noteq> None \<and> model dc \<noteq> None \<and> model dc = m) \<and>
   (m = None \<or> model dc = None \<longrightarrow>
      serial (match_id dc m i n s fw) = serial dc \<and>
      fw_version (match_id dc m i n s fw) = fw_version dc)"
  by (auto simp add: match_id_def Let_def)

theorem match_id_only_on_match_witness:
  "serial (match_id
     \<lparr>duration_seconds = 0, maxdepth_mm = 0, meandepth_mm = 0, last_manual_time = 0,
      samples = 0, sample = [], deviceid = 5, model = Some ''Vyper'', serial = None,
      fw_version = None\<rparr> (Some ''Vyper'') 5 None (Some ''S1'') None) \<noteq>
   serial
     \<lparr>duration_seconds = 0, maxdepth_mm = 0, meandepth_mm = 0, last_manual_time = 0,
      samples = 0, sample = [], deviceid = 5, model = Some ''Vyper'', serial = None,
      fw_version = None\<rparr> \<and>
   model
     \<lparr>duration_seconds = 0, maxdepth_mm = 0, meandepth_mm = 0, last_manual_time = 0,
      samples = 0, sample = [], deviceid = 5, model = Some ''Vyper'', serial = None,
      fw_version = None\<rparr> = Some ''Vyper'' \<and>
   serial (match_id
     \<lparr>duration_seconds = 0, maxdepth_mm = 0, meandepth_mm = 0, last_manual_time = 0,
      samples = 0, sample = [], deviceid = 5, model = None, serial = None,
      fw_version = None\<rparr> (Some ''Vyper'') 5 None (Some ''S1'') (Some ''1.2'')) = None \<and>
   fw_version (match_id
     \<lparr>duration_seconds = 0, maxdepth_mm = 0, meandepth_mm = 0, last_manual_time = 0,
      samples = 0, sample = [], deviceid = 5, model = None, serial = None,
      fw_version = None\<rparr> (Some ''Vyper'') 5 None (Some ''S1'') (Some ''1.2'')) = None"
  using match_id_only_on_match [of
      "\<lparr>duration_seconds = 0, maxdepth_mm = 0, meandepth_mm = 0, last_manual_time = 0,
        samples = 0, sample = [], deviceid = 5, model = Some ''Vyper'', serial = None,
        fw_version = None\<rparr>" "Some ''Vyper''" 5 None "Some ''S1''" None]
    match_id_only_on_match [of
      "\<lparr>duration_seconds = 0, maxdepth_mm = 0, meandepth_mm = 0, last_manual_time = 0,
        samples = 0, sample = [], deviceid = 5, model = None, serial = None,
        fw_version = None\<rparr>" "Some ''Vyper''" 5 None "Some ''S1''" "Some ''1.2''"]
  by (simp add: match_id_def)

end
